theory Spec2Isabelle
  imports Main "HOL-Library.Word"
begin

section \<open>Scam Audio Detector: the script \<open>main.py\<close>\<close>

text \<open>
  The script is a Streamlit page: each interaction runs it once from top to bottom.
  One run is modelled as a function from the user's input and the answers of the three
  external services (the \<open>ffmpeg\<close> process, the Whisper model, the Gemini model) to an
  outcome and a final world. The world is the file system together with a trace of
  everything the run did that is visible from outside: files created and removed,
  services called, widgets written.
\<close>

subsection \<open>Python strings\<close>

text \<open>
  A Python \<open>str\<close> is modelled as a \<open>string\<close> whose characters are the code points
  below 256. On that range \<open>str.isspace\<close>, \<open>str.lower\<close>, \<open>str.strip()\<close>,
  \<open>str.split()\<close> and the operator \<open>in\<close> are as follows.
\<close>

definition isspace :: "char \<Rightarrow> bool" where
  "isspace c =
     (let n = (of_char c :: nat)
      in (9 \<le> n \<and> n \<le> 13) \<or> (28 \<le> n \<and> n \<le> 32) \<or> n = 133 \<or> n = 160)"

definition lower_char :: "char \<Rightarrow> char" where
  "lower_char c =
     (let n = (of_char c :: nat)
      in if 65 \<le> n \<and> n \<le> 90 then char_of (n + 32)
         else if 192 \<le> n \<and> n \<le> 222 \<and> n \<noteq> 215 then char_of (n + 32)
         else c)"

definition str_lower :: "string \<Rightarrow> string" where
  "str_lower s = map lower_char s"

definition str_strip :: "string \<Rightarrow> string" where
  "str_strip s = rev (dropWhile isspace (rev (dropWhile isspace s)))"

text \<open>
  \<open>s.split()\<close>: the maximal runs of non-whitespace characters, in order. The second
  argument is the word being read, reversed.
\<close>

fun split_from :: "string \<Rightarrow> string \<Rightarrow> string list" where
  "split_from [] cur = (if cur = [] then [] else [rev cur])"
| "split_from (c # cs) cur =
     (if isspace c
      then (if cur = [] then split_from cs [] else rev cur # split_from cs [])
      else split_from cs (c # cur))"

definition str_split :: "string \<Rightarrow> string list" where
  "str_split s = split_from s []"

primrec startswith :: "string \<Rightarrow> string \<Rightarrow> bool" where
  "startswith s [] = True"
| "startswith s (c # cs) = (case s of [] \<Rightarrow> False | d # ds \<Rightarrow> d = c \<and> startswith ds cs)"

text \<open>\<open>str_contains s sub\<close> is Python's \<open>sub in s\<close>.\<close>

primrec str_contains :: "string \<Rightarrow> string \<Rightarrow> bool" where
  "str_contains [] sub = (sub = [])"
| "str_contains (c # cs) sub = (startswith (c # cs) sub \<or> str_contains cs sub)"

text \<open>Truth value of an optional string: \<open>None\<close> and \<open>""\<close> are false.\<close>

definition truthy :: "string option \<Rightarrow> bool" where
  "truthy v = (case v of None \<Rightarrow> False | Some s \<Rightarrow> s \<noteq> [])"

text \<open>\<open>str(v)\<close> for an optional string, as an f-string or \<open>st.write\<close> renders it.\<close>

definition py_str :: "string option \<Rightarrow> string" where
  "py_str v = (case v of None \<Rightarrow> ''None'' | Some s \<Rightarrow> s)"

text \<open>\<open>str(n)\<close> for a non-negative integer.\<close>

function str_nat :: "nat \<Rightarrow> string" where
  "str_nat n =
     (if n < 10 then [char_of (48 + n)]
      else str_nat (n div 10) @ [char_of (48 + n mod 10)])"
  by pat_completeness auto
termination
  by (relation "measure id") auto

text \<open>
  \<open>repr(s)\<close>, as the message of an \<open>OSError\<close> shows the file name: double quotes
  when the string has a single quote and no double quote, single quotes otherwise; the
  quote, the backslash, the control characters and the characters that are not printable
  are escaped.
\<close>

definition hex_digit :: "nat \<Rightarrow> char" where
  "hex_digit n = (if n < 10 then char_of (48 + n) else char_of (87 + n))"

definition repr_char :: "char \<Rightarrow> char \<Rightarrow> string" where
  "repr_char quote c =
     (let n = (of_char c :: nat)
      in if c = quote \<or> c = CHR 0x5C then [CHR 0x5C, c]
         else if n = 9 then [CHR 0x5C, CHR ''t'']
         else if n = 10 then [CHR 0x5C, CHR ''n'']
         else if n = 13 then [CHR 0x5C, CHR ''r'']
         else if n < 32 \<or> (127 \<le> n \<and> n \<le> 160) \<or> n = 173
         then [CHR 0x5C, CHR ''x'', hex_digit (n div 16), hex_digit (n mod 16)]
         else [c])"

definition py_repr :: "string \<Rightarrow> string" where
  "py_repr s =
     (let quote = (if CHR 0x27 \<in> set s \<and> CHR 0x22 \<notin> set s then CHR 0x22 else CHR 0x27)
      in quote # concat (map (repr_char quote) s) @ [quote])"

subsection \<open>The world and the external services\<close>

type_synonym path = string
type_synonym bytes = "8 word list"

datatype exn =
    CalledProcessError string
  | FileNotFoundError string
  | PermissionError string
  | UnicodeDecodeError string
  | AttributeError string

text \<open>\<open>str(e)\<close>, the text an f-string shows for a caught exception.\<close>

fun str_exn :: "exn \<Rightarrow> string" where
  "str_exn (CalledProcessError m) = m"
| "str_exn (FileNotFoundError m) = m"
| "str_exn (PermissionError m) = m"
| "str_exn (UnicodeDecodeError m) = m"
| "str_exn (AttributeError m) = m"

datatype event =
    FileCreated path
  | FileRemoved path
  | SubprocessRun "string list"
  | LoadModel string
  | Transcribe path string
  | GenerateContent string string
  | StError string
  | StWrite "string list"
  | StAudio path
  | StMarkdown string

record world =
  files :: "path \<rightharpoonup> bytes"
  trace :: "event list"

definition init :: "(path \<rightharpoonup> bytes) \<Rightarrow> world" where
  "init fs = \<lparr>files = fs, trace = []\<rparr>"

definition log :: "event \<Rightarrow> world \<Rightarrow> world" where
  "log ev w = w\<lparr>trace := trace w @ [ev]\<rparr>"

text \<open>
  What \<open>subprocess.run\<close> met when it ran the decoder. The decoder is outside the
  program, so every behaviour it can show is an outcome here:
  \<^item> \<open>Exit0 out\<close>: it exited with status zero and wrote the output file \<open>out\<close>;
  \<^item> \<open>ExitNonZero err out\<close>: it exited with a non-zero status, its captured standard
    error decodes to the text \<open>err\<close>, and it left the output file \<open>out\<close> behind, or
    none;
  \<^item> \<open>NoSuchExecutable\<close>: no executable of that name was found;
  \<^item> \<open>NotExecutable\<close>: the file found may not be executed;
  \<^item> \<open>Undecodable status m out\<close>: it exited with \<open>status\<close>, and what was captured
    from it is not valid text in the expected encoding, so that decoding it (asked for by
    \<open>text=True\<close>) fails with the message \<open>m\<close>; it left the output file \<open>out\<close>
    behind, or none.
\<close>

datatype proc_result =
    Exit0 bytes
  | ExitNonZero string "bytes option"
  | NoSuchExecutable
  | NotExecutable
  | Undecodable int string "bytes option"

text \<open>
  The environment of one run: the widgets' values and the services' answers. The
  decoder and the speech model read the file system.
  \<open>load_model\<close> answers \<open>Some m\<close> when loading raises with message \<open>m\<close>;
  \<open>transcribe\<close> and \<open>generate_content\<close> answer \<open>Inl m\<close> when they raise and
  \<open>Inr t\<close> with the text otherwise; for \<open>generate_content\<close> that covers the call and
  the read of \<open>response.text\<close>. \<open>tmp_stem\<close> is the directory and random part of the
  temporary file's name.
\<close>

record env =
  option_sel :: string
  audio_file :: "bytes option"
  audio :: "bytes option"
  analyze_clicked :: bool
  tmp_stem :: string
  ffmpeg :: "(path \<rightharpoonup> bytes) \<Rightarrow> string list \<Rightarrow> proc_result"
  load_model :: "string \<Rightarrow> string option"
  transcribe :: "(path \<rightharpoonup> bytes) \<Rightarrow> path \<Rightarrow> string \<Rightarrow> string + string"
  generate_content :: "string \<Rightarrow> string \<Rightarrow> string + string"

definition st_error :: "string \<Rightarrow> world \<Rightarrow> world" where
  "st_error m w = log (StError m) w"

definition st_write :: "string list \<Rightarrow> world \<Rightarrow> world" where
  "st_write xs w = log (StWrite xs) w"

definition os_path_getsize :: "path \<Rightarrow> world \<Rightarrow> exn + nat" where
  "os_path_getsize p w =
     (case files w p of
        None \<Rightarrow> Inl (FileNotFoundError (''[Errno 2] No such file or directory: '' @ py_repr p))
      | Some b \<Rightarrow> Inr (length b))"

definition os_remove :: "path \<Rightarrow> world \<Rightarrow> exn option \<times> world" where
  "os_remove p w =
     (case files w p of
        None \<Rightarrow>
          (Some (FileNotFoundError (''[Errno 2] No such file or directory: '' @ py_repr p)), w)
      | Some b \<Rightarrow> (None, log (FileRemoved p) (w\<lparr>files := (files w)(p := None)\<rparr>)))"

text \<open>
  \<open>tempfile.NamedTemporaryFile(delete=False, suffix=...)\<close>, the write into it and the
  read of its name.
\<close>

definition named_temporary_file :: "env \<Rightarrow> string \<Rightarrow> bytes \<Rightarrow> world \<Rightarrow> path \<times> world" where
  "named_temporary_file e suffix content w =
     (let name = tmp_stem e @ suffix
      in (name, log (FileCreated name) (w\<lparr>files := (files w)(name \<mapsto> content)\<rparr>)))"

subsection \<open>\<open>convert_to_wav\<close>\<close>

definition ffmpeg_args :: "path \<Rightarrow> path \<Rightarrow> string list" where
  "ffmpeg_args audio_path output_path =
     [''ffmpeg'', ''-i'', audio_path, ''-acodec'', ''pcm_s16le'', ''-ar'', ''16000'', output_path]"

text \<open>The file a process left behind, if it left one.\<close>

definition left_behind :: "path \<Rightarrow> bytes option \<Rightarrow> world \<Rightarrow> world" where
  "left_behind p out w =
     (case out of
        None \<Rightarrow> w
      | Some b \<Rightarrow> log (FileCreated p) (w\<lparr>files := (files w)(p \<mapsto> b)\<rparr>))"

text \<open>
  \<open>subprocess.run(args, check=True, capture_output=True, text=True)\<close> for the decoder,
  whose output file is the last argument. With \<open>check=True\<close> a non-zero status raises
  \<open>CalledProcessError\<close>; a missing executable raises \<open>FileNotFoundError\<close>, one that
  may not be executed \<open>PermissionError\<close>, and captured output that does not decode
  \<open>UnicodeDecodeError\<close>, whatever the status.
\<close>

definition subprocess_run :: "env \<Rightarrow> string list \<Rightarrow> world \<Rightarrow> exn option \<times> world" where
  "subprocess_run e args w =
     (let w1 = log (SubprocessRun args) w
      in case ffmpeg e (files w) args of
           Exit0 out \<Rightarrow> (None, left_behind (last args) (Some out) w1)
         | ExitNonZero err out \<Rightarrow>
             (Some (CalledProcessError err), left_behind (last args) out w1)
         | NoSuchExecutable \<Rightarrow>
             (Some (FileNotFoundError
                      (''[Errno 2] No such file or directory: '' @ py_repr (hd args))), w1)
         | NotExecutable \<Rightarrow>
             (Some (PermissionError (''[Errno 13] Permission denied: '' @ py_repr (hd args))), w1)
         | Undecodable status m out \<Rightarrow>
             (Some (UnicodeDecodeError m), left_behind (last args) out w1))"

definition convert_to_wav :: "env \<Rightarrow> path \<Rightarrow> path \<Rightarrow> world \<Rightarrow> (exn + path option) \<times> world" where
  "convert_to_wav e audio_path output_path w =
     (case subprocess_run e (ffmpeg_args audio_path output_path) w of
        (None, w1) \<Rightarrow> (Inr (Some output_path), w1)
      | (Some (CalledProcessError err), w1) \<Rightarrow>
          (Inr None, st_error (''Error converting audio to WAV: '' @ err) w1)
      | (Some (FileNotFoundError m), w1) \<Rightarrow>
          (Inr None,
           st_error ''FFmpeg is not installed or not found in PATH. Please install FFmpeg.'' w1)
      | (Some ex, w1) \<Rightarrow> (Inl ex, w1))"

subsection \<open>\<open>transcribe_audio\<close>\<close>

text \<open>The result is the Python pair \<open>(text, error)\<close>; every exception is caught.\<close>

definition transcribe_audio ::
  "env \<Rightarrow> path \<Rightarrow> world \<Rightarrow> (string option \<times> string option) \<times> world" where
  "transcribe_audio e audio_path w =
     (case os_path_getsize audio_path w of
        Inl ex \<Rightarrow> ((None, Some (''Error transcribing audio: '' @ str_exn ex)), w)
      | Inr file_size \<Rightarrow>
          (if file_size < 100 then ((None, Some ''Audio file is empty or too small.''), w)
           else
             (let w1 = log (LoadModel ''medium'') w
              in (case load_model e ''medium'' of
                    Some m \<Rightarrow> ((None, Some (''Error transcribing audio: '' @ m)), w1)
                  | None \<Rightarrow>
                      (let w2 = log (Transcribe audio_path ''en'') w1
                       in (case transcribe e (files w) audio_path ''en'' of
                             Inl m \<Rightarrow> ((None, Some (''Error transcribing audio: '' @ m)), w2)
                           | Inr text \<Rightarrow>
                               (if str_strip text = []
                                then ((None, Some ''Transcription is empty.''), w2)
                                else ((Some text, None), w2))))))))"

subsection \<open>\<open>analyze_text\<close>\<close>

definition prompt_of :: "string \<Rightarrow> string" where
  "prompt_of text =
     ''Analyze this phone call transcription and determine if it resembles a spam call. '' @
     ''Look for signs like unsolicited offers, urgent language, or requests for personal information. '' @
     ''If the transcription is too short or lacks context, state that more information is needed. '' @
     ''Answer yes or no, and provide a brief explanation (1-2 sentences): '' @ text"

text \<open>The result is the Python triple \<open>(result, explanation, color)\<close>.\<close>

definition analyze_text ::
  "env \<Rightarrow> string \<Rightarrow> world \<Rightarrow> (string option \<times> string option \<times> string option) \<times> world" where
  "analyze_text e text w =
     (let prompt = prompt_of text;
          w1 = log (GenerateContent ''gemini-1.5-flash'' prompt) w
      in (case generate_content e ''gemini-1.5-flash'' prompt of
            Inl m \<Rightarrow>
              ((None, None, None), st_error (''Error analyzing text with Gemini API: '' @ m) w1)
          | Inr response \<Rightarrow>
              (let response_text = str_lower response
               in (if str_contains response_text ''yes''
                   then ((Some ''Scam detected!'', Some response, Some ''red''), w1)
                   else if str_contains response_text ''no''
                   then ((Some ''Not a scam.'', Some response, Some ''green''), w1)
                   else ((Some ''Unable to determine.'', Some response, Some ''orange''), w1)))))"

subsection \<open>The page: lines 87 to 189\<close>

text \<open>
  A run ends in one of three ways: it reaches the end of the script, it calls
  \<open>st.stop()\<close>, or an exception leaves it uncaught.
\<close>

datatype outcome = Finished | Stopped | Raised exn

type_synonym script = "world \<Rightarrow> outcome \<times> world"

definition st_stop :: script where
  "st_stop w = (Stopped, w)"

definition finish :: script where
  "finish w = (Finished, w)"

text \<open>\<open>os.remove(p)\<close> followed by the rest of the script.\<close>

definition remove_then :: "path \<Rightarrow> script \<Rightarrow> script" where
  "remove_then p k w =
     (case os_remove p w of
        (Some ex, w1) \<Rightarrow> (Raised ex, w1)
      | (None, w1) \<Rightarrow> k w1)"

text \<open>
  Lines 106 to 131 and, with another message at the length check, lines 161 to 186:
  the Analyze button, the transcription, the length check, the classification and the
  clean-up at the end of the branch.
\<close>

definition analyze_block :: "env \<Rightarrow> path \<Rightarrow> path \<Rightarrow> string \<Rightarrow> script" where
  "analyze_block e temp_audio_path converted_path too_short w =
     (if analyze_clicked e
      then
        (case transcribe_audio e converted_path w of
           ((text, error), w1) \<Rightarrow>
             (if truthy error
              then remove_then temp_audio_path (remove_then converted_path st_stop)
                     (st_error (py_str error) w1)
              else
                (let w2 = st_write [''Transcription:'', py_str text] w1
                 in (case text of
                       None \<Rightarrow>
                         (Raised (AttributeError
                            (CHR 0x27 # ''NoneType'' @ CHR 0x27 #
                             '' object has no attribute '' @ CHR 0x27 # ''split'' @ [CHR 0x27])),
                          w2)
                     | Some t \<Rightarrow>
                         (if length (str_split t) < 5
                          then remove_then temp_audio_path (remove_then converted_path st_stop)
                                 (st_error too_short w2)
                          else
                            (case analyze_text e t w2 of
                               ((result, explanation, color), w3) \<Rightarrow>
                                 remove_then temp_audio_path (remove_then converted_path finish)
                                   (if truthy result
                                    then st_write [''Explanation:'', py_str explanation]
                                           (log (StMarkdown
                                                  (''<h3 style='' @ CHR 0x27 # ''color:'' @
                                                   py_str color @ CHR 0x27 # ''>'' @
                                                   py_str result @ ''</h3>'')) w3)
                                    else w3)))))))
      else remove_then temp_audio_path (remove_then converted_path finish) w)"

text \<open>
  Lines 96 to 104 and 151 to 159: the conversion, the stop when it failed, the audio
  player. \<open>not converted_path\<close> holds for \<open>None\<close> and for the empty string.
\<close>

definition convert_block :: "env \<Rightarrow> path \<Rightarrow> path \<Rightarrow> string \<Rightarrow> script" where
  "convert_block e temp_audio_path wav_path too_short w =
     (case convert_to_wav e temp_audio_path wav_path w of
        (Inl ex, w1) \<Rightarrow> (Raised ex, w1)
      | (Inr None, w1) \<Rightarrow> remove_then temp_audio_path st_stop w1
      | (Inr (Some converted_path), w1) \<Rightarrow>
          (if converted_path = []
           then remove_then temp_audio_path st_stop w1
           else analyze_block e temp_audio_path converted_path too_short
                  (log (StAudio converted_path) w1)))"

definition upload_audio :: "env \<Rightarrow> script" where
  "upload_audio e w =
     (case audio_file e of
        None \<Rightarrow> finish w
      | Some buffer \<Rightarrow>
          (case named_temporary_file e ''.tmp'' buffer w of
             (temp_audio_path, w1) \<Rightarrow>
               convert_block e temp_audio_path (temp_audio_path @ ''.wav'')
                 ''Transcription is too short for analysis. Please upload a longer audio clip.''
                 w1))"

definition record_audio :: "env \<Rightarrow> script" where
  "record_audio e w =
     (let w0 = st_write
                 [''**Note**: Ensure your browser has microphone access. '' @
                  ''You may need to click '' @ CHR 0x27 # ''Allow'' @ CHR 0x27 # '' when prompted.''] w
      in (case audio e of
            None \<Rightarrow> finish w0
          | Some recorded \<Rightarrow>
              (case named_temporary_file e ''.wav'' recorded w0 of
                 (temp_audio_path, w1) \<Rightarrow>
                   (case os_path_getsize temp_audio_path w1 of
                      Inl ex \<Rightarrow> (Raised ex, w1)
                    | Inr file_size \<Rightarrow>
                        (let w2 = st_write
                                    [''Recorded audio file size: '' @ str_nat file_size @ '' bytes''] w1
                         in (if file_size < 100
                             then remove_then temp_audio_path st_stop
                                    (st_error
                                       (''Recorded audio file is empty. Please ensure your microphone '' @
                                        ''is working and browser permissions are granted.'') w2)
                             else convert_block e temp_audio_path
                                    (temp_audio_path @ ''_converted.wav'')
                                    (''Transcription is too short for analysis. '' @
                                     ''Please record a longer audio clip.'')
                                    w2))))))"

definition disclaimer :: string where
  "disclaimer =
     ''**Note**: This is a proof-of-concept application. Predictions are based on AI analysis '' @
     ''and may not be accurate in all cases. Always use your judgment when dealing with '' @
     ''potential scams.''"

definition main :: "env \<Rightarrow> script" where
  "main e w =
     (case (if option_sel e = ''Upload Audio'' then upload_audio e w
            else if option_sel e = ''Record Audio'' then record_audio e w
            else finish w) of
        (Finished, w1) \<Rightarrow> (Finished, st_write [disclaimer] w1)
      | (Stopped, w1) \<Rightarrow> (Stopped, w1)
      | (Raised ex, w1) \<Rightarrow> (Raised ex, w1))"

text \<open>What a trace says about files and services.\<close>

definition created :: "event list \<Rightarrow> path list" where
  "created tr = concat (map (\<lambda>ev. case ev of FileCreated p \<Rightarrow> [p] | _ \<Rightarrow> []) tr)"

definition removed :: "event list \<Rightarrow> path list" where
  "removed tr = concat (map (\<lambda>ev. case ev of FileRemoved p \<Rightarrow> [p] | _ \<Rightarrow> []) tr)"

definition decoder_runs :: "event list \<Rightarrow> string list list" where
  "decoder_runs tr = concat (map (\<lambda>ev. case ev of SubprocessRun a \<Rightarrow> [a] | _ \<Rightarrow> []) tr)"

definition speech_calls :: "event list \<Rightarrow> event list" where
  "speech_calls tr =
     filter (\<lambda>ev. case ev of LoadModel m \<Rightarrow> True | Transcribe p l \<Rightarrow> True | _ \<Rightarrow> False) tr"

definition classifier_calls :: "event list \<Rightarrow> event list" where
  "classifier_calls tr =
     filter (\<lambda>ev. case ev of GenerateContent m p \<Rightarrow> True | _ \<Rightarrow> False) tr"

definition errors_shown :: "event list \<Rightarrow> string list" where
  "errors_shown tr = concat (map (\<lambda>ev. case ev of StError m \<Rightarrow> [m] | _ \<Rightarrow> []) tr)"

subsection \<open>A sample environment\<close>

text \<open>
  An upload of a short clip that decodes to a hundred bytes, is transcribed to nine words
  and is answered with a yes. The sample runs below vary it field by field.
\<close>

definition demo_env :: env where
  "demo_env =
     \<lparr>option_sel = ''Upload Audio'',
      audio_file = Some (replicate 4 0),
      audio = Some (replicate 100 0),
      analyze_clicked = True,
      tmp_stem = ''/tmp/tmpk3'',
      ffmpeg = (\<lambda>fs args. Exit0 (replicate 100 0)),
      load_model = (\<lambda>m. None),
      transcribe = (\<lambda>fs p l. Inr ''Hello this is your bank calling about your account''),
      generate_content = (\<lambda>m p. Inr ''Yes, this resembles a scam.'')\<rparr>"

text \<open>
  Three decoders that fail. The first converts nothing, writes an empty output file and
  exits with status 1. The second exits with status 1 and writes to its standard error a
  byte that is not valid UTF-8. The third is installed without the permission to execute.
\<close>

definition leaky_env :: env where
  "leaky_env = demo_env\<lparr>ffmpeg := (\<lambda>fs args. ExitNonZero ''Conversion failed!'' (Some []))\<rparr>"

definition undecodable_message :: string where
  "undecodable_message =
     CHR 0x27 # ''utf-8'' @ CHR 0x27 # '' codec can'' @ CHR 0x27 #
     ''t decode byte 0xff in position 0: invalid start byte''"

definition garbled_env :: env where
  "garbled_env = demo_env\<lparr>ffmpeg := (\<lambda>fs args. Undecodable 1 undecodable_message None)\<rparr>"

definition locked_env :: env where
  "locked_env = demo_env\<lparr>ffmpeg := (\<lambda>fs args. NotExecutable)\<rparr>"

section \<open>Properties\<close>

subsection \<open>Strings\<close>

lemma startswith_iff: "startswith s sub \<longleftrightarrow> (\<exists>v. s = sub @ v)"
  by (induction sub arbitrary: s) (auto split: list.splits)

lemma str_contains_iff: "str_contains s sub \<longleftrightarrow> (\<exists>u v. s = u @ sub @ v)"
proof (induction s)
  case Nil
  then show ?case by auto
next
  case (Cons c cs)
  show ?case
  proof
    assume "str_contains (c # cs) sub"
    then consider "startswith (c # cs) sub" | "str_contains cs sub" by auto
    then show "\<exists>u v. c # cs = u @ sub @ v"
    proof cases
      case 1
      then obtain v where "c # cs = sub @ v" by (auto simp: startswith_iff)
      then have "c # cs = [] @ sub @ v" by simp
      then show ?thesis by blast
    next
      case 2
      then obtain u v where "cs = u @ sub @ v" using Cons.IH by auto
      then have "c # cs = (c # u) @ sub @ v" by simp
      then show ?thesis by blast
    qed
  next
    assume "\<exists>u v. c # cs = u @ sub @ v"
    then obtain u v where uv: "c # cs = u @ sub @ v" by auto
    show "str_contains (c # cs) sub"
    proof (cases u)
      case Nil
      with uv have "startswith (c # cs) sub" by (auto simp: startswith_iff)
      then show ?thesis by simp
    next
      case (Cons d ds)
      with uv have "cs = ds @ sub @ v" by simp
      then have "str_contains cs sub" using Cons.IH by blast
      then show ?thesis by simp
    qed
  qed
qed

text \<open>\<open>not text.strip()\<close> holds exactly for the texts made of whitespace only.\<close>

lemma all_dropWhile: "(\<forall>x \<in> set (dropWhile P xs). P x) \<longleftrightarrow> (\<forall>x \<in> set xs. P x)"
  by (induction xs) auto

lemma str_strip_empty_iff: "str_strip s = [] \<longleftrightarrow> list_all isspace s"
  by (simp add: str_strip_def list_all_iff all_dropWhile)

text \<open>Rules that evaluate the string functions on literals.\<close>

lemmas str_eval =
  str_lower_def lower_char_def str_strip_def str_split_def isspace_def char_of_def
  bit_Suc_0_iff truthy_def py_str_def

subsection \<open>The world\<close>

lemma trace_log [simp]: "trace (log ev w) = trace w @ [ev]"
  by (simp add: log_def)

lemma files_log [simp]: "files (log ev w) = files w"
  by (simp add: log_def)

lemma files_left_behind [simp]:
  "files (left_behind p out w) = (case out of None \<Rightarrow> files w | Some b \<Rightarrow> (files w)(p \<mapsto> b))"
  by (simp add: left_behind_def split: option.splits)

lemma trace_left_behind [simp]:
  "trace (left_behind p out w) = trace w @ (case out of None \<Rightarrow> [] | Some b \<Rightarrow> [FileCreated p])"
  by (simp add: left_behind_def split: option.splits)

lemma files_st_error [simp]: "files (st_error m w) = files w"
  by (simp add: st_error_def)

lemma trace_st_error [simp]: "trace (st_error m w) = trace w @ [StError m]"
  by (simp add: st_error_def)

lemma files_st_write [simp]: "files (st_write xs w) = files w"
  by (simp add: st_write_def)

lemma trace_st_write [simp]: "trace (st_write xs w) = trace w @ [StWrite xs]"
  by (simp add: st_write_def)

lemma created_append [simp]: "created (xs @ ys) = created xs @ created ys"
  by (simp add: created_def)

lemma removed_append [simp]: "removed (xs @ ys) = removed xs @ removed ys"
  by (simp add: removed_def)

lemma decoder_runs_append [simp]: "decoder_runs (xs @ ys) = decoder_runs xs @ decoder_runs ys"
  by (simp add: decoder_runs_def)

lemma errors_shown_append [simp]: "errors_shown (xs @ ys) = errors_shown xs @ errors_shown ys"
  by (simp add: errors_shown_def)

lemma speech_calls_append [simp]: "speech_calls (xs @ ys) = speech_calls xs @ speech_calls ys"
  by (simp add: speech_calls_def)

lemma classifier_calls_append [simp]:
  "classifier_calls (xs @ ys) = classifier_calls xs @ classifier_calls ys"
  by (simp add: classifier_calls_def)

lemma created_Nil [simp]: "created [] = []"
  by (simp add: created_def)

lemma created_Cons [simp]:
  "created (ev # tr) = (case ev of FileCreated p \<Rightarrow> [p] | _ \<Rightarrow> []) @ created tr"
  by (simp add: created_def)

lemma removed_Nil [simp]: "removed [] = []"
  by (simp add: removed_def)

lemma removed_Cons [simp]:
  "removed (ev # tr) = (case ev of FileRemoved p \<Rightarrow> [p] | _ \<Rightarrow> []) @ removed tr"
  by (simp add: removed_def)

lemma decoder_runs_Nil [simp]: "decoder_runs [] = []"
  by (simp add: decoder_runs_def)

lemma decoder_runs_Cons [simp]:
  "decoder_runs (ev # tr) = (case ev of SubprocessRun a \<Rightarrow> [a] | _ \<Rightarrow> []) @ decoder_runs tr"
  by (simp add: decoder_runs_def)

lemma errors_shown_Nil [simp]: "errors_shown [] = []"
  by (simp add: errors_shown_def)

lemma errors_shown_Cons [simp]:
  "errors_shown (ev # tr) = (case ev of StError m \<Rightarrow> [m] | _ \<Rightarrow> []) @ errors_shown tr"
  by (simp add: errors_shown_def)

lemma speech_calls_Nil [simp]: "speech_calls [] = []"
  by (simp add: speech_calls_def)

lemma speech_calls_Cons [simp]:
  "speech_calls (ev # tr) =
     (case ev of LoadModel m \<Rightarrow> [ev] | Transcribe p l \<Rightarrow> [ev] | _ \<Rightarrow> []) @ speech_calls tr"
  by (cases ev) (simp_all add: speech_calls_def)

lemma classifier_calls_Nil [simp]: "classifier_calls [] = []"
  by (simp add: classifier_calls_def)

lemma classifier_calls_Cons [simp]:
  "classifier_calls (ev # tr) =
     (case ev of GenerateContent m p \<Rightarrow> [ev] | _ \<Rightarrow> []) @ classifier_calls tr"
  by (cases ev) (simp_all add: classifier_calls_def)

lemma trace_init [simp]: "trace (init fs) = []"
  by (simp add: init_def)

lemma files_init [simp]: "files (init fs) = fs"
  by (simp add: init_def)

subsection \<open>The transcoder: \<open>convert_to_wav\<close>\<close>

text \<open>
  Claim C1, as amended. Every call of \<open>convert_to_wav\<close> runs the decoder once, with the
  argument list \<open>ffmpeg -i <input> -acodec pcm_s16le -ar 16000 <output>\<close>: the fixed
  arguments select 16-bit signed little-endian PCM and a sample rate of 16 kHz, whatever the
  input is and however the decoder answers.
\<close>

theorem convert_to_wav_arguments:
  "decoder_runs (trace (snd (convert_to_wav e audio_path output_path w))) =
     decoder_runs (trace w) @
     [[''ffmpeg'', ''-i'', audio_path, ''-acodec'', ''pcm_s16le'', ''-ar'', ''16000'', output_path]]"
  by (cases "ffmpeg e (files w) (ffmpeg_args audio_path output_path)")
     (simp_all add: convert_to_wav_def subprocess_run_def Let_def ffmpeg_args_def
        split: option.splits)

text \<open>
  The claim as it stands also has the arguments select a mono channel layout. They do
  not: the list holds the options \<open>-i\<close>, \<open>-acodec\<close> and \<open>-ar\<close> and none for the
  channel count (the decoder's is \<open>-ac\<close>), so the number of channels is left to the
  decoder.
\<close>

theorem convert_to_wav_mono_counterexample:
  "decoder_runs (trace (snd (convert_to_wav demo_env ''clip.tmp'' ''clip.tmp.wav'' (init Map.empty)))) =
     [[''ffmpeg'', ''-i'', ''clip.tmp'', ''-acodec'', ''pcm_s16le'', ''-ar'', ''16000'', ''clip.tmp.wav'']] \<and>
   ''-ac'' \<notin> set (ffmpeg_args ''clip.tmp'' ''clip.tmp.wav'')"
  by (simp add: convert_to_wav_def subprocess_run_def Let_def ffmpeg_args_def demo_env_def)

text \<open>
  What \<open>convert_to_wav\<close> returns, what it shows and how often it runs the decoder, for
  every outcome of the run. The two exceptions it handles become \<open>None\<close> and an error on
  the page; the other two leave it uncaught.
\<close>

lemma convert_to_wav_outcomes:
  "fst (convert_to_wav e audio_path output_path w) =
     (case ffmpeg e (files w) (ffmpeg_args audio_path output_path) of
        Exit0 b \<Rightarrow> Inr (Some output_path)
      | ExitNonZero err out \<Rightarrow> Inr None
      | NoSuchExecutable \<Rightarrow> Inr None
      | NotExecutable \<Rightarrow>
          Inl (PermissionError (''[Errno 13] Permission denied: '' @ py_repr ''ffmpeg''))
      | Undecodable status m out \<Rightarrow> Inl (UnicodeDecodeError m)) \<and>
   errors_shown (trace (snd (convert_to_wav e audio_path output_path w))) =
     errors_shown (trace w) @
     (case ffmpeg e (files w) (ffmpeg_args audio_path output_path) of
        Exit0 b \<Rightarrow> []
      | ExitNonZero err out \<Rightarrow> [''Error converting audio to WAV: '' @ err]
      | NoSuchExecutable \<Rightarrow>
          [''FFmpeg is not installed or not found in PATH. Please install FFmpeg.'']
      | NotExecutable \<Rightarrow> []
      | Undecodable status m out \<Rightarrow> [])"
  by (cases "ffmpeg e (files w) (ffmpeg_args audio_path output_path)")
     (simp_all add: convert_to_wav_def subprocess_run_def Let_def ffmpeg_args_def
        split: option.splits)

text \<open>
  Claim C7, at an input where the code departs from it. The decoder exits with status 1,
  the case the claim names, and its standard error holds a byte that is not valid UTF-8.
  \<open>convert_to_wav\<close> does not return \<open>None\<close>: \<open>subprocess.run\<close> raises
  \<open>UnicodeDecodeError\<close> while decoding the captured output, neither \<open>except\<close> clause
  matches, and the exception leaves the function with no error shown. The decoder has
  been run once.
\<close>

theorem convert_to_wav_undecodable_stderr:
  "ffmpeg garbled_env [''clip.tmp'' \<mapsto> replicate 4 0] (ffmpeg_args ''clip.tmp'' ''clip.tmp.wav'') =
     Undecodable 1 undecodable_message None \<and>
   fst (convert_to_wav garbled_env ''clip.tmp'' ''clip.tmp.wav'' (init [''clip.tmp'' \<mapsto> replicate 4 0])) =
     Inl (UnicodeDecodeError undecodable_message) \<and>
   errors_shown (trace (snd (convert_to_wav garbled_env ''clip.tmp'' ''clip.tmp.wav''
                               (init [''clip.tmp'' \<mapsto> replicate 4 0])))) = [] \<and>
   decoder_runs (trace (snd (convert_to_wav garbled_env ''clip.tmp'' ''clip.tmp.wav''
                               (init [''clip.tmp'' \<mapsto> replicate 4 0])))) =
     [ffmpeg_args ''clip.tmp'' ''clip.tmp.wav'']"
  by (simp add: convert_to_wav_def subprocess_run_def Let_def garbled_env_def)

subsection \<open>The transcription: \<open>transcribe_audio\<close>\<close>

text \<open>
  Claim C5. For a file of fewer than 100 bytes \<open>transcribe_audio\<close> returns the error
  \<open>Audio file is empty or too small.\<close> and leaves the world as it was: the model is
  neither loaded nor run.
\<close>

theorem transcribe_audio_small_file:
  assumes "files w audio_path = Some b" and "length b < 100"
  shows "transcribe_audio e audio_path w = ((None, Some ''Audio file is empty or too small.''), w) \<and>
         speech_calls (trace (snd (transcribe_audio e audio_path w))) = speech_calls (trace w)"
  using assms by (simp add: transcribe_audio_def os_path_getsize_def)

theorem transcribe_audio_small_file_witness:
  "files (init [''a.wav'' \<mapsto> replicate 99 0]) ''a.wav'' = Some (replicate 99 0) \<and>
   length (replicate 99 (0 :: 8 word)) < 100 \<and>
   transcribe_audio demo_env ''a.wav'' (init [''a.wav'' \<mapsto> replicate 99 0]) =
     ((None, Some ''Audio file is empty or too small.''), init [''a.wav'' \<mapsto> replicate 99 0]) \<and>
   speech_calls (trace (snd (transcribe_audio demo_env ''a.wav'' (init [''a.wav'' \<mapsto> replicate 99 0])))) =
     speech_calls (trace (init [''a.wav'' \<mapsto> replicate 99 0]))"
proof -
  have f: "files (init [''a.wav'' \<mapsto> replicate 99 0]) ''a.wav'' = Some (replicate 99 0)"
    by simp
  have l: "length (replicate 99 (0 :: 8 word)) < 100"
    by simp
  from transcribe_audio_small_file [OF f l, of demo_env] f l show ?thesis by blast
qed

text \<open>
  Claim C9. The threshold is 100 bytes exactly. A file of fewer than 100 bytes is
  rejected with the empty-audio error before any call of the speech model. A file of
  100 bytes or more passes the gate and goes on to inference: \<open>transcribe_audio\<close> loads
  the model and, when it has loaded, runs it on that file, and nothing else happens in
  between or after; its error, if any, is not the empty-audio one; and when the model
  answers with a text that is not blank, that text is the result.
\<close>

theorem size_gate_threshold:
  assumes "files w audio_path = Some b"
  shows "(length b < 100 \<longrightarrow>
            fst (transcribe_audio e audio_path w) = (None, Some ''Audio file is empty or too small.'') \<and>
            speech_calls (trace (snd (transcribe_audio e audio_path w))) = speech_calls (trace w)) \<and>
         (100 \<le> length b \<longrightarrow>
            snd (fst (transcribe_audio e audio_path w)) \<noteq> Some ''Audio file is empty or too small.'' \<and>
            trace (snd (transcribe_audio e audio_path w)) =
              trace w @ LoadModel ''medium'' #
                (case load_model e ''medium'' of
                   None \<Rightarrow> [Transcribe audio_path ''en'']
                 | Some m \<Rightarrow> []) \<and>
            (load_model e ''medium'' = None \<and>
             transcribe e (files w) audio_path ''en'' = Inr t \<and> \<not> list_all isspace t \<longrightarrow>
               fst (transcribe_audio e audio_path w) = (Some t, None)))"
  using assms
  by (auto simp: transcribe_audio_def os_path_getsize_def Let_def str_strip_empty_iff
           split: option.splits sum.splits)

theorem size_gate_threshold_witness:
  "files (init [''a.wav'' \<mapsto> replicate 99 0]) ''a.wav'' = Some (replicate 99 0) \<and>
   length (replicate 99 (0 :: 8 word)) < 100 \<and>
   fst (transcribe_audio demo_env ''a.wav'' (init [''a.wav'' \<mapsto> replicate 99 0])) =
     (None, Some ''Audio file is empty or too small.'') \<and>
   speech_calls (trace (snd (transcribe_audio demo_env ''a.wav'' (init [''a.wav'' \<mapsto> replicate 99 0])))) =
     speech_calls (trace (init [''a.wav'' \<mapsto> replicate 99 0])) \<and>
   files (init [''a.wav'' \<mapsto> replicate 100 0]) ''a.wav'' = Some (replicate 100 0) \<and>
   100 \<le> length (replicate 100 (0 :: 8 word)) \<and>
   load_model demo_env ''medium'' = None \<and>
   transcribe demo_env (files (init [''a.wav'' \<mapsto> replicate 100 0])) ''a.wav'' ''en'' =
     Inr ''Hello this is your bank calling about your account'' \<and>
   \<not> list_all isspace ''Hello this is your bank calling about your account'' \<and>
   snd (fst (transcribe_audio demo_env ''a.wav'' (init [''a.wav'' \<mapsto> replicate 100 0]))) \<noteq>
     Some ''Audio file is empty or too small.'' \<and>
   trace (snd (transcribe_audio demo_env ''a.wav'' (init [''a.wav'' \<mapsto> replicate 100 0]))) =
     [LoadModel ''medium'', Transcribe ''a.wav'' ''en''] \<and>
   fst (transcribe_audio demo_env ''a.wav'' (init [''a.wav'' \<mapsto> replicate 100 0])) =
     (Some ''Hello this is your bank calling about your account'', None)"
proof -
  let ?t = "''Hello this is your bank calling about your account''"
  have f99: "files (init [''a.wav'' \<mapsto> replicate 99 0]) ''a.wav'' = Some (replicate 99 0)"
    by simp
  have l99: "length (replicate 99 (0 :: 8 word)) < 100"
    by simp
  have f100: "files (init [''a.wav'' \<mapsto> replicate 100 0]) ''a.wav'' = Some (replicate 100 0)"
    by simp
  have l100: "100 \<le> length (replicate 100 (0 :: 8 word))"
    by simp
  have m: "load_model demo_env ''medium'' = None"
    by (simp add: demo_env_def)
  have a: "transcribe demo_env (files (init [''a.wav'' \<mapsto> replicate 100 0])) ''a.wav'' ''en'' = Inr ?t"
    by (simp add: demo_env_def)
  have nb: "\<not> list_all isspace ?t"
    by (simp add: isspace_def)
  from size_gate_threshold [OF f100, of demo_env ?t] l100 m a nb
  have big: "snd (fst (transcribe_audio demo_env ''a.wav'' (init [''a.wav'' \<mapsto> replicate 100 0]))) \<noteq>
               Some ''Audio file is empty or too small.''"
    "trace (snd (transcribe_audio demo_env ''a.wav'' (init [''a.wav'' \<mapsto> replicate 100 0]))) =
       [LoadModel ''medium'', Transcribe ''a.wav'' ''en'']"
    "fst (transcribe_audio demo_env ''a.wav'' (init [''a.wav'' \<mapsto> replicate 100 0])) = (Some ?t, None)"
    by simp_all
  from size_gate_threshold [OF f99, of demo_env] l99
  have small: "fst (transcribe_audio demo_env ''a.wav'' (init [''a.wav'' \<mapsto> replicate 99 0])) =
                 (None, Some ''Audio file is empty or too small.'')"
    "speech_calls (trace (snd (transcribe_audio demo_env ''a.wav'' (init [''a.wav'' \<mapsto> replicate 99 0])))) =
       speech_calls (trace (init [''a.wav'' \<mapsto> replicate 99 0]))"
    by simp_all
  from big small f99 l99 f100 l100 m a nb show ?thesis by blast
qed

text \<open>
  Claim C6. When the model's text is empty or consists of whitespace only,
  \<open>transcribe_audio\<close> returns the error \<open>Transcription is empty.\<close> and no text; hence a
  text it does return is never empty and never whitespace only.
\<close>

theorem transcribe_audio_blank_text:
  "(files w audio_path = Some b \<and> 100 \<le> length b \<and> load_model e ''medium'' = None \<and>
    transcribe e (files w) audio_path ''en'' = Inr text \<and> list_all isspace text \<longrightarrow>
      fst (transcribe_audio e audio_path w) = (None, Some ''Transcription is empty.'')) \<and>
   (fst (fst (transcribe_audio e audio_path w)) = Some t \<longrightarrow> t \<noteq> [] \<and> \<not> list_all isspace t)"
  by (auto simp: transcribe_audio_def os_path_getsize_def Let_def str_strip_empty_iff
           split: option.splits sum.splits if_splits)


theorem transcribe_audio_blank_text_witness:
  "files (init [''a.wav'' \<mapsto> replicate 100 0]) ''a.wav'' = Some (replicate 100 0) \<and>
   100 \<le> length (replicate 100 (0 :: 8 word)) \<and>
   load_model (demo_env\<lparr>transcribe := (\<lambda>fs p l. Inr [CHR 0x20, CHR 0x0A, CHR 0x09])\<rparr>) ''medium'' = None \<and>
   transcribe (demo_env\<lparr>transcribe := (\<lambda>fs p l. Inr [CHR 0x20, CHR 0x0A, CHR 0x09])\<rparr>)
     (files (init [''a.wav'' \<mapsto> replicate 100 0])) ''a.wav'' ''en'' = Inr [CHR 0x20, CHR 0x0A, CHR 0x09] \<and>
   list_all isspace [CHR 0x20, CHR 0x0A, CHR 0x09] \<and>
   fst (transcribe_audio (demo_env\<lparr>transcribe := (\<lambda>fs p l. Inr [CHR 0x20, CHR 0x0A, CHR 0x09])\<rparr>)
          ''a.wav'' (init [''a.wav'' \<mapsto> replicate 100 0])) =
     (None, Some ''Transcription is empty.'') \<and>
   fst (fst (transcribe_audio demo_env ''a.wav'' (init [''a.wav'' \<mapsto> replicate 100 0]))) =
     Some ''Hello this is your bank calling about your account'' \<and>
   \<not> list_all isspace ''Hello this is your bank calling about your account''"
proof -
  let ?w = "init [''a.wav'' \<mapsto> replicate 100 0]"
  let ?e = "demo_env\<lparr>transcribe := (\<lambda>fs p l. Inr [CHR 0x20, CHR 0x0A, CHR 0x09])\<rparr>"
  have f: "files ?w ''a.wav'' = Some (replicate 100 0)"
    by simp
  have l: "100 \<le> length (replicate 100 (0 :: 8 word))"
    by simp
  have m: "load_model ?e ''medium'' = None"
    by (simp add: demo_env_def)
  have t: "transcribe ?e (files ?w) ''a.wav'' ''en'' = Inr [CHR 0x20, CHR 0x0A, CHR 0x09]"
    by simp
  have b: "list_all isspace [CHR 0x20, CHR 0x0A, CHR 0x09]"
    by (simp add: isspace_def)
  have r: "fst (fst (transcribe_audio demo_env ''a.wav'' ?w)) =
             Some ''Hello this is your bank calling about your account''"
    by (simp add: transcribe_audio_def os_path_getsize_def demo_env_def Let_def str_eval)
  from transcribe_audio_blank_text [of ?w "''a.wav''" "replicate 100 0" ?e "[CHR 0x20, CHR 0x0A, CHR 0x09]"]
    transcribe_audio_blank_text [of ?w "''a.wav''" _ demo_env _
      "''Hello this is your bank calling about your account''"]
    f l m t b r
  show ?thesis by blast
qed

subsection \<open>The classifier: \<open>analyze_text\<close>\<close>

text \<open>
  Claim C3. Whenever the hosted model answers with a text, \<open>analyze_text\<close> lower-cases
  that text and looks for substrings in a fixed order: if \<open>yes\<close> occurs anywhere in the
  lower-cased text the result is \<open>Scam detected!\<close> in red, whether or not \<open>no\<close> occurs
  too; otherwise, if \<open>no\<close> occurs, it is \<open>Not a scam.\<close> in green; otherwise it is
  \<open>Unable to determine.\<close> in orange. Occurrence is stated directly: the text splits
  into something, the keyword, and something.
\<close>

theorem analyze_text_verdict:
  assumes "generate_content e ''gemini-1.5-flash'' (prompt_of text) = Inr response"
  shows "(fst (fst (analyze_text e text w)), snd (snd (fst (analyze_text e text w)))) =
           (if \<exists>u v. str_lower response = u @ ''yes'' @ v
            then (Some ''Scam detected!'', Some ''red'')
            else if \<exists>u v. str_lower response = u @ ''no'' @ v
            then (Some ''Not a scam.'', Some ''green'')
            else (Some ''Unable to determine.'', Some ''orange''))"
proof -
  have y: "(\<exists>u v. str_lower response = u @ ''yes'' @ v) = str_contains (str_lower response) ''yes''"
    by (rule str_contains_iff [symmetric])
  have n: "(\<exists>u v. str_lower response = u @ ''no'' @ v) = str_contains (str_lower response) ''no''"
    by (rule str_contains_iff [symmetric])
  show ?thesis
    unfolding y n using assms by (simp add: analyze_text_def Let_def)
qed

theorem analyze_text_verdict_witness:
  "generate_content (demo_env\<lparr>generate_content := (\<lambda>m p. Inr ''No doubt: YES.'')\<rparr>)
       ''gemini-1.5-flash'' (prompt_of ''hello'') = Inr ''No doubt: YES.'' \<and>
   (fst (fst (analyze_text (demo_env\<lparr>generate_content := (\<lambda>m p. Inr ''No doubt: YES.'')\<rparr>)
                ''hello'' (init Map.empty))),
    snd (snd (fst (analyze_text (demo_env\<lparr>generate_content := (\<lambda>m p. Inr ''No doubt: YES.'')\<rparr>)
                ''hello'' (init Map.empty))))) =
     (Some ''Scam detected!'', Some ''red'')"
proof -
  let ?e = "demo_env\<lparr>generate_content := (\<lambda>m p. Inr ''No doubt: YES.'')\<rparr>"
  have h: "generate_content ?e ''gemini-1.5-flash'' (prompt_of ''hello'') = Inr ''No doubt: YES.''"
    by simp
  have y: "str_lower ''No doubt: YES.'' = ''no doubt: '' @ ''yes'' @ ''.''"
    by (simp add: str_eval)
  then have "\<exists>u v. str_lower ''No doubt: YES.'' = u @ ''yes'' @ v" by blast
  with analyze_text_verdict [OF h, of "init Map.empty"] h show ?thesis by simp
qed

text \<open>
  Claim C8. Whenever the hosted model answers with a text, the explanation returned by
  \<open>analyze_text\<close> is that text itself, in its original casing, and not the lower-cased
  copy the keywords are searched in.
\<close>

theorem analyze_text_explanation:
  assumes "generate_content e ''gemini-1.5-flash'' (prompt_of text) = Inr response"
  shows "fst (snd (fst (analyze_text e text w))) = Some response"
  using assms by (simp add: analyze_text_def Let_def)

theorem analyze_text_explanation_witness:
  "generate_content (demo_env\<lparr>generate_content := (\<lambda>m p. Inr ''No doubt: YES.'')\<rparr>)
       ''gemini-1.5-flash'' (prompt_of ''hello'') = Inr ''No doubt: YES.'' \<and>
   fst (snd (fst (analyze_text (demo_env\<lparr>generate_content := (\<lambda>m p. Inr ''No doubt: YES.'')\<rparr>)
                ''hello'' (init Map.empty)))) = Some ''No doubt: YES.'' \<and>
   str_lower ''No doubt: YES.'' \<noteq> ''No doubt: YES.''"
proof -
  let ?e = "demo_env\<lparr>generate_content := (\<lambda>m p. Inr ''No doubt: YES.'')\<rparr>"
  have h: "generate_content ?e ''gemini-1.5-flash'' (prompt_of ''hello'') = Inr ''No doubt: YES.''"
    by simp
  have y: "str_lower ''No doubt: YES.'' \<noteq> ''No doubt: YES.''"
    by (simp add: str_eval)
  from analyze_text_explanation [OF h, of "init Map.empty"] h y show ?thesis by simp
qed

subsection \<open>The page: temporary files\<close>

lemma transcribe_audio_files [simp]: "files (snd (transcribe_audio e p w)) = files w"
  by (simp add: transcribe_audio_def Let_def split: sum.splits option.splits)

lemma transcribe_audio_created [simp]:
  "created (trace (snd (transcribe_audio e p w))) = created (trace w)"
  by (simp add: transcribe_audio_def Let_def split: sum.splits option.splits)

lemma transcribe_audio_removed [simp]:
  "removed (trace (snd (transcribe_audio e p w))) = removed (trace w)"
  by (simp add: transcribe_audio_def Let_def split: sum.splits option.splits)

lemma transcribe_audio_decoder_runs [simp]:
  "decoder_runs (trace (snd (transcribe_audio e p w))) = decoder_runs (trace w)"
  by (simp add: transcribe_audio_def Let_def split: sum.splits option.splits)

lemma transcribe_audio_text:
  "\<not> truthy (snd (fst (transcribe_audio e p w))) \<Longrightarrow> \<exists>t. fst (fst (transcribe_audio e p w)) = Some t"
  by (auto simp: transcribe_audio_def Let_def truthy_def split: sum.splits option.splits if_splits)

lemma analyze_text_files [simp]: "files (snd (analyze_text e t w)) = files w"
  by (simp add: analyze_text_def Let_def split: sum.splits)

lemma analyze_text_created [simp]:
  "created (trace (snd (analyze_text e t w))) = created (trace w)"
  by (simp add: analyze_text_def Let_def split: sum.splits)

lemma analyze_text_removed [simp]:
  "removed (trace (snd (analyze_text e t w))) = removed (trace w)"
  by (simp add: analyze_text_def Let_def split: sum.splits)

lemma analyze_text_decoder_runs [simp]:
  "decoder_runs (trace (snd (analyze_text e t w))) = decoder_runs (trace w)"
  by (simp add: analyze_text_def Let_def split: sum.splits)

lemma remove_then_present:
  "files w p = Some b \<Longrightarrow>
   remove_then p k w = k (log (FileRemoved p) (w\<lparr>files := (files w)(p := None)\<rparr>))"
  by (simp add: remove_then_def os_remove_def)

lemma remove_one_stop:
  assumes "files w t = Some b"
  shows "remove_then t st_stop w =
           (Stopped, w\<lparr>files := (files w)(t := None), trace := trace w @ [FileRemoved t]\<rparr>)"
  using assms by (simp add: remove_then_present st_stop_def log_def)

lemma remove_both:
  assumes "files w t = Some b1" and "files w c = Some b2" and "t \<noteq> c"
  shows "remove_then t (remove_then c st_stop) w =
           (Stopped, w\<lparr>files := (files w)(t := None, c := None),
                       trace := trace w @ [FileRemoved t, FileRemoved c]\<rparr>)"
    and "remove_then t (remove_then c finish) w =
           (Finished, w\<lparr>files := (files w)(t := None, c := None),
                        trace := trace w @ [FileRemoved t, FileRemoved c]\<rparr>)"
  using assms by (simp_all add: remove_then_present st_stop_def finish_def log_def)

lemma analyze_block_cleanup:
  assumes "files w t = Some b1" and "files w c = Some b2" and "t \<noteq> c"
  shows "fst (analyze_block e t c msg w) \<in> {Finished, Stopped} \<and>
         files (snd (analyze_block e t c msg w)) = (files w)(t := None, c := None) \<and>
         created (trace (snd (analyze_block e t c msg w))) = created (trace w) \<and>
         removed (trace (snd (analyze_block e t c msg w))) = removed (trace w) @ [t, c] \<and>
         decoder_runs (trace (snd (analyze_block e t c msg w))) = decoder_runs (trace w)"
proof (cases "analyze_clicked e")
  case False
  then show ?thesis
    using assms by (simp add: analyze_block_def remove_both)
next
  case True
  obtain res err w1 where T: "transcribe_audio e c w = ((res, err), w1)"
    by (metis prod.exhaust)
  have w1: "files w1 = files w" "created (trace w1) = created (trace w)"
    "removed (trace w1) = removed (trace w)" "decoder_runs (trace w1) = decoder_runs (trace w)"
    using transcribe_audio_files [of e c w] transcribe_audio_created [of e c w]
      transcribe_audio_removed [of e c w] transcribe_audio_decoder_runs [of e c w]
    by (simp_all add: T)
  show ?thesis
  proof (cases "truthy err")
    case True
    with \<open>analyze_clicked e\<close> T w1 assms show ?thesis
      by (simp add: analyze_block_def remove_both)
  next
    case False
    then obtain tx where tx: "res = Some tx"
      using transcribe_audio_text [of e c w] by (auto simp: T)
    show ?thesis
    proof (cases "length (str_split tx) < 5")
      case True
      with \<open>analyze_clicked e\<close> \<open>\<not> truthy err\<close> T tx w1 assms show ?thesis
        by (simp add: analyze_block_def remove_both)
    next
      case long: False
      let ?w2 = "st_write [''Transcription:'', py_str res] w1"
      obtain result explanation color w3
        where A: "analyze_text e tx ?w2 = ((result, explanation, color), w3)"
        by (metis prod.exhaust)
      have w3: "files w3 = files w" "created (trace w3) = created (trace w)"
        "removed (trace w3) = removed (trace w)" "decoder_runs (trace w3) = decoder_runs (trace w)"
        using analyze_text_files [of e tx ?w2] analyze_text_created [of e tx ?w2]
          analyze_text_removed [of e tx ?w2] analyze_text_decoder_runs [of e tx ?w2]
        by (simp_all add: A w1)
      from \<open>analyze_clicked e\<close> \<open>\<not> truthy err\<close> long T tx A w3 assms show ?thesis
        by (simp add: analyze_block_def remove_both)
    qed
  qed
qed


lemma restrict_all [simp]: "m |` UNIV = m"
  by (rule ext) (simp add: restrict_map_def)

lemma restrict_drop_one: "m(t := None) = m |` (- {t})"
  by (rule ext) (simp add: restrict_map_def)

lemma restrict_drop_two: "m(t := None, c := None) = m |` (- {t, c})"
  by (rule ext) (simp add: restrict_map_def)

lemma restrict_restrict_drop: "(m(t \<mapsto> b)) |` (- insert t A) = m |` (- insert t A)"
  by (rule ext) (simp add: restrict_map_def)

text \<open>
  The clean-up after a conversion, for a decoder run that ends in one of three ways: it
  exits with zero and has written its output, it exits with a non-zero status, decodable
  output and no file left behind, or it is not found.
\<close>

lemma convert_block_cleanup:
  assumes "files w t = Some b" and "t \<noteq> out" and "out \<noteq> []"
    and "(\<exists>b. ffmpeg e (files w) (ffmpeg_args t out) = Exit0 b) \<or>
           (\<exists>err. ffmpeg e (files w) (ffmpeg_args t out) = ExitNonZero err None) \<or>
           ffmpeg e (files w) (ffmpeg_args t out) = NoSuchExecutable"
  shows "fst (convert_block e t out msg w) \<in> {Finished, Stopped} \<and>
         (\<exists>cs. (cs = [] \<or> cs = [out]) \<and>
               files (snd (convert_block e t out msg w)) = files w |` (- set (t # cs)) \<and>
               created (trace (snd (convert_block e t out msg w))) = created (trace w) @ cs \<and>
               removed (trace (snd (convert_block e t out msg w))) = removed (trace w) @ t # cs)"
proof (cases "ffmpeg e (files w) (ffmpeg_args t out)")
  case (Exit0 written)
  let ?w1 = "log (FileCreated out)
               ((log (SubprocessRun (ffmpeg_args t out)) w)
                  \<lparr>files := (files w)(out \<mapsto> written)\<rparr>)"
  have C: "convert_to_wav e t out w = (Inr (Some out), ?w1)"
    using Exit0
    by (simp add: convert_to_wav_def subprocess_run_def left_behind_def Let_def ffmpeg_args_def)
  let ?w2 = "log (StAudio out) ?w1"
  have f: "files ?w2 t = Some b" "files ?w2 out = Some written"
    using assms by simp_all
  from analyze_block_cleanup [OF f \<open>t \<noteq> out\<close>, of e msg]
  have "fst (analyze_block e t out msg ?w2) \<in> {Finished, Stopped} \<and>
        files (snd (analyze_block e t out msg ?w2)) = files w |` (- set (t # [out])) \<and>
        created (trace (snd (analyze_block e t out msg ?w2))) = created (trace w) @ [out] \<and>
        removed (trace (snd (analyze_block e t out msg ?w2))) = removed (trace w) @ t # [out]"
    by (simp add: restrict_drop_two [symmetric])
  moreover have "convert_block e t out msg w = analyze_block e t out msg ?w2"
    using C \<open>out \<noteq> []\<close> by (simp add: convert_block_def)
  ultimately show ?thesis by metis
next
  case (ExitNonZero err left)
  with assms(4) have "left = None" by simp
  with ExitNonZero have "convert_block e t out msg w =
               (Stopped, w\<lparr>files := (files w)(t := None),
                           trace := trace w @ [SubprocessRun (ffmpeg_args t out),
                                               StError (''Error converting audio to WAV: '' @ err),
                                               FileRemoved t]\<rparr>)"
    using assms(1-3)
    by (simp add: convert_block_def convert_to_wav_def subprocess_run_def Let_def
          remove_one_stop)
  then show ?thesis
    by (simp add: restrict_drop_one)
next
  case NoSuchExecutable
  then have "convert_block e t out msg w =
               (Stopped, w\<lparr>files := (files w)(t := None),
                           trace := trace w @ [SubprocessRun (ffmpeg_args t out),
                                               StError ''FFmpeg is not installed or not found in PATH. Please install FFmpeg.'',
                                               FileRemoved t]\<rparr>)"
    using assms(1-3)
    by (simp add: convert_block_def convert_to_wav_def subprocess_run_def Let_def
          remove_one_stop)
  then show ?thesis
    by (simp add: restrict_drop_one)
next
  case NotExecutable
  with assms(4) show ?thesis by simp
next
  case (Undecodable status m left)
  with assms(4) show ?thesis by simp
qed

lemma upload_audio_cleanup:
  assumes "\<forall>fs' args. (\<exists>b. ffmpeg e fs' args = Exit0 b) \<or>
                      (\<exists>err. ffmpeg e fs' args = ExitNonZero err None) \<or>
                      ffmpeg e fs' args = NoSuchExecutable"
  shows "fst (upload_audio e w) \<in> {Finished, Stopped} \<and>
   (\<exists>cs. distinct cs \<and>
         files (snd (upload_audio e w)) = files w |` (- set cs) \<and>
         created (trace (snd (upload_audio e w))) = created (trace w) @ cs \<and>
         removed (trace (snd (upload_audio e w))) = removed (trace w) @ cs)"
proof (cases "audio_file e")
  case None
  then have "upload_audio e w = (Finished, w)"
    by (simp add: upload_audio_def finish_def)
  then have "distinct ([] :: path list) \<and>
         files (snd (upload_audio e w)) = files w |` (- set []) \<and>
         created (trace (snd (upload_audio e w))) = created (trace w) @ [] \<and>
         removed (trace (snd (upload_audio e w))) = removed (trace w) @ []"
    by simp
  moreover have "fst (upload_audio e w) \<in> {Finished, Stopped}"
    using \<open>upload_audio e w = (Finished, w)\<close> by simp
  ultimately show ?thesis by blast
next
  case (Some buffer)
  let ?t = "tmp_stem e @ ''.tmp''"
  let ?out = "?t @ ''.wav''"
  let ?msg = "''Transcription is too short for analysis. Please upload a longer audio clip.''"
  let ?w1 = "log (FileCreated ?t) (w\<lparr>files := (files w)(?t \<mapsto> buffer)\<rparr>)"
  have U: "upload_audio e w = convert_block e ?t ?out ?msg ?w1"
    using Some by (simp add: upload_audio_def named_temporary_file_def Let_def)
  have f: "files ?w1 ?t = Some buffer" by simp
  have ne: "?t \<noteq> ?out" "?out \<noteq> []" by simp_all
  have td: "(\<exists>b. ffmpeg e (files ?w1) (ffmpeg_args ?t ?out) = Exit0 b) \<or>
            (\<exists>err. ffmpeg e (files ?w1) (ffmpeg_args ?t ?out) = ExitNonZero err None) \<or>
            ffmpeg e (files ?w1) (ffmpeg_args ?t ?out) = NoSuchExecutable"
    using assms by blast
  from convert_block_cleanup [OF f ne td, of ?msg]
  obtain cs where cs: "cs = [] \<or> cs = [?out]"
    and F: "files (snd (convert_block e ?t ?out ?msg ?w1)) = files ?w1 |` (- set (?t # cs))"
    and C: "created (trace (snd (convert_block e ?t ?out ?msg ?w1))) = created (trace ?w1) @ cs"
    and R: "removed (trace (snd (convert_block e ?t ?out ?msg ?w1))) = removed (trace ?w1) @ ?t # cs"
    and O: "fst (convert_block e ?t ?out ?msg ?w1) \<in> {Finished, Stopped}"
    by blast
  have d: "distinct (?t # cs)" using cs ne by auto
  have "files (snd (upload_audio e w)) = files w |` (- set (?t # cs))"
    using F by (simp add: U restrict_restrict_drop)
  moreover have "created (trace (snd (upload_audio e w))) = created (trace w) @ ?t # cs"
    using C by (simp add: U)
  moreover have "removed (trace (snd (upload_audio e w))) = removed (trace w) @ ?t # cs"
    using R by (simp add: U)
  moreover have "fst (upload_audio e w) \<in> {Finished, Stopped}"
    using O by (simp add: U)
  ultimately show ?thesis using d by blast
qed


lemma record_audio_cleanup:
  assumes "\<forall>fs' args. (\<exists>b. ffmpeg e fs' args = Exit0 b) \<or>
                      (\<exists>err. ffmpeg e fs' args = ExitNonZero err None) \<or>
                      ffmpeg e fs' args = NoSuchExecutable"
  shows "fst (record_audio e w) \<in> {Finished, Stopped} \<and>
   (\<exists>cs. distinct cs \<and>
         files (snd (record_audio e w)) = files w |` (- set cs) \<and>
         created (trace (snd (record_audio e w))) = created (trace w) @ cs \<and>
         removed (trace (snd (record_audio e w))) = removed (trace w) @ cs)"
proof (cases "audio e")
  case None
  then have "record_audio e w = (Finished, st_write
                 [''**Note**: Ensure your browser has microphone access. '' @
                  ''You may need to click '' @ CHR 0x27 # ''Allow'' @ CHR 0x27 # '' when prompted.''] w)"
    by (simp add: record_audio_def finish_def)
  then have "distinct ([] :: path list) \<and>
         files (snd (record_audio e w)) = files w |` (- set []) \<and>
         created (trace (snd (record_audio e w))) = created (trace w) @ [] \<and>
         removed (trace (snd (record_audio e w))) = removed (trace w) @ []"
    and "fst (record_audio e w) \<in> {Finished, Stopped}"
    by simp_all
  then show ?thesis by blast
next
  case (Some recorded)
  let ?t = "tmp_stem e @ ''.wav''"
  let ?out = "?t @ ''_converted.wav''"
  let ?msg = "''Transcription is too short for analysis. '' @ ''Please record a longer audio clip.''"
  let ?w0 = "st_write
                 [''**Note**: Ensure your browser has microphone access. '' @
                  ''You may need to click '' @ CHR 0x27 # ''Allow'' @ CHR 0x27 # '' when prompted.''] w"
  let ?w1 = "log (FileCreated ?t) (?w0\<lparr>files := (files ?w0)(?t \<mapsto> recorded)\<rparr>)"
  let ?w2 = "st_write [''Recorded audio file size: '' @ str_nat (length recorded) @ '' bytes''] ?w1"
  have f: "files ?w2 ?t = Some recorded" by simp
  have ne: "?t \<noteq> ?out" "?out \<noteq> []" by simp_all
  show ?thesis
  proof (cases "length recorded < 100")
    case True
    let ?w3 = "st_error
                 (''Recorded audio file is empty. Please ensure your microphone '' @
                  ''is working and browser permissions are granted.'') ?w2"
    have "files ?w3 ?t = Some recorded" by simp
    then have S: "remove_then ?t st_stop ?w3 =
                (Stopped, ?w3\<lparr>files := (files ?w3)(?t := None), trace := trace ?w3 @ [FileRemoved ?t]\<rparr>)"
      by (rule remove_one_stop)
    have "record_audio e w = remove_then ?t st_stop ?w3"
      using Some True
      by (simp add: record_audio_def named_temporary_file_def os_path_getsize_def Let_def)
    with S have R: "record_audio e w =
                (Stopped, ?w3\<lparr>files := (files ?w3)(?t := None), trace := trace ?w3 @ [FileRemoved ?t]\<rparr>)"
      by simp
    have "distinct [?t] \<and>
         files (snd (record_audio e w)) = files w |` (- set [?t]) \<and>
         created (trace (snd (record_audio e w))) = created (trace w) @ [?t] \<and>
         removed (trace (snd (record_audio e w))) = removed (trace w) @ [?t]"
      and "fst (record_audio e w) \<in> {Finished, Stopped}"
      unfolding R by (simp_all add: restrict_drop_one [symmetric])
    then show ?thesis by blast
  next
    case False
    have U: "record_audio e w = convert_block e ?t ?out ?msg ?w2"
      using Some False
      by (simp add: record_audio_def named_temporary_file_def os_path_getsize_def Let_def)
    have td: "(\<exists>b. ffmpeg e (files ?w2) (ffmpeg_args ?t ?out) = Exit0 b) \<or>
              (\<exists>err. ffmpeg e (files ?w2) (ffmpeg_args ?t ?out) = ExitNonZero err None) \<or>
              ffmpeg e (files ?w2) (ffmpeg_args ?t ?out) = NoSuchExecutable"
      using assms by blast
    from convert_block_cleanup [OF f ne td, of ?msg]
    obtain cs where cs: "cs = [] \<or> cs = [?out]"
      and F: "files (snd (convert_block e ?t ?out ?msg ?w2)) = files ?w2 |` (- set (?t # cs))"
      and C: "created (trace (snd (convert_block e ?t ?out ?msg ?w2))) = created (trace ?w2) @ cs"
      and R: "removed (trace (snd (convert_block e ?t ?out ?msg ?w2))) = removed (trace ?w2) @ ?t # cs"
      and O: "fst (convert_block e ?t ?out ?msg ?w2) \<in> {Finished, Stopped}"
      by blast
    have d: "distinct (?t # cs)" using cs ne by auto
    have "files (snd (record_audio e w)) = files w |` (- set (?t # cs))"
      using F by (simp add: U restrict_restrict_drop)
    moreover have "created (trace (snd (record_audio e w))) = created (trace w) @ ?t # cs"
      using C by (simp add: U)
    moreover have "removed (trace (snd (record_audio e w))) = removed (trace w) @ ?t # cs"
      using R by (simp add: U)
    moreover have "fst (record_audio e w) \<in> {Finished, Stopped}"
      using O by (simp add: U)
    ultimately show ?thesis using d by blast
  qed
qed

text \<open>
  The clean-up of a whole run, for a decoder that always ends in one of those three ways.
  The run ends at the end of the script or in \<open>st.stop()\<close>, the files removed are
  exactly the files created, in the same order and each once, and the file system is
  what it was before the run, without those paths.
\<close>

lemma cleanup_with_tidy_decoder:
  assumes "\<forall>fs' args. (\<exists>b. ffmpeg e fs' args = Exit0 b) \<or>
                      (\<exists>err. ffmpeg e fs' args = ExitNonZero err None) \<or>
                      ffmpeg e fs' args = NoSuchExecutable"
  shows "(fst (main e (init fs)) = Finished \<or> fst (main e (init fs)) = Stopped) \<and>
   distinct (created (trace (snd (main e (init fs))))) \<and>
   removed (trace (snd (main e (init fs)))) = created (trace (snd (main e (init fs)))) \<and>
   files (snd (main e (init fs))) = fs |` (- set (created (trace (snd (main e (init fs))))))"
proof -
  define r where "r = (if option_sel e = ''Upload Audio'' then upload_audio e (init fs)
            else if option_sel e = ''Record Audio'' then record_audio e (init fs)
            else finish (init fs))"
  have "fst r \<in> {Finished, Stopped} \<and>
        (\<exists>cs. distinct cs \<and> files (snd r) = fs |` (- set cs) \<and>
              created (trace (snd r)) = cs \<and> removed (trace (snd r)) = cs)"
    using upload_audio_cleanup [OF assms, of "init fs"] record_audio_cleanup [OF assms, of "init fs"]
    by (simp add: r_def finish_def)
  then obtain cs where o: "fst r = Finished \<or> fst r = Stopped" and cs: "distinct cs"
    "files (snd r) = fs |` (- set cs)" "created (trace (snd r)) = cs" "removed (trace (snd r)) = cs"
    by auto
  have m: "main e (init fs) =
             (case r of (Finished, w1) \<Rightarrow> (Finished, st_write [disclaimer] w1)
                      | (Stopped, w1) \<Rightarrow> (Stopped, w1)
                      | (Raised ex, w1) \<Rightarrow> (Raised ex, w1))"
    by (simp add: main_def r_def)
  from o show ?thesis
  proof
    assume "fst r = Finished"
    then obtain w1 where w1: "r = (Finished, w1)" by (cases r) auto
    then have "main e (init fs) = (Finished, st_write [disclaimer] w1)"
      using m by simp
    with cs w1 show ?thesis by simp
  next
    assume "fst r = Stopped"
    then obtain w1 where w1: "r = (Stopped, w1)" by (cases r) auto
    then have "main e (init fs) = (Stopped, w1)"
      using m by simp
    with cs w1 show ?thesis by simp
  qed
qed

text \<open>
  Claim C2, at inputs where the code departs from it. An upload is converted by a
  decoder that writes its output file and then exits with status 1. The branch taken
  after a failed conversion removes the uploaded clip only, so the run stops with two
  files created and one removed, and the converted file stays on disk. With a decoder
  that may not be executed, \<open>subprocess.run\<close> raises \<open>PermissionError\<close>, nothing catches
  it, and the run ends with the uploaded clip still on disk and nothing removed.
\<close>

theorem failed_conversion_leaves_files:
  "ffmpeg leaky_env [''/tmp/tmpk3.tmp'' \<mapsto> replicate 4 0]
     (ffmpeg_args ''/tmp/tmpk3.tmp'' ''/tmp/tmpk3.tmp.wav'') =
     ExitNonZero ''Conversion failed!'' (Some []) \<and>
   fst (main leaky_env (init Map.empty)) = Stopped \<and>
   created (trace (snd (main leaky_env (init Map.empty)))) =
     [''/tmp/tmpk3.tmp'', ''/tmp/tmpk3.tmp.wav''] \<and>
   removed (trace (snd (main leaky_env (init Map.empty)))) = [''/tmp/tmpk3.tmp''] \<and>
   files (snd (main leaky_env (init Map.empty))) ''/tmp/tmpk3.tmp.wav'' = Some [] \<and>
   fst (main locked_env (init Map.empty)) =
     Raised (PermissionError (''[Errno 13] Permission denied: '' @ py_repr ''ffmpeg'')) \<and>
   created (trace (snd (main locked_env (init Map.empty)))) = [''/tmp/tmpk3.tmp''] \<and>
   removed (trace (snd (main locked_env (init Map.empty)))) = [] \<and>
   files (snd (main locked_env (init Map.empty))) ''/tmp/tmpk3.tmp'' = Some (replicate 4 0)"
  by (simp add: main_def upload_audio_def named_temporary_file_def convert_block_def
        convert_to_wav_def subprocess_run_def ffmpeg_args_def remove_then_def os_remove_def
        st_stop_def Let_def leaky_env_def locked_env_def demo_env_def)

subsection \<open>The page: the two gates\<close>

lemma convert_block_decoder_runs:
  assumes "files w t = Some b" and "t \<noteq> out" and "out \<noteq> []"
  shows "decoder_runs (trace (snd (convert_block e t out msg w))) =
           decoder_runs (trace w) @ [ffmpeg_args t out]"
proof (cases "ffmpeg e (files w) (ffmpeg_args t out)")
  case (Exit0 written)
  let ?w1 = "log (FileCreated out)
               ((log (SubprocessRun (ffmpeg_args t out)) w)
                  \<lparr>files := (files w)(out \<mapsto> written)\<rparr>)"
  let ?w2 = "log (StAudio out) ?w1"
  have C: "convert_to_wav e t out w = (Inr (Some out), ?w1)"
    using Exit0
    by (simp add: convert_to_wav_def subprocess_run_def left_behind_def Let_def ffmpeg_args_def)
  have f: "files ?w2 t = Some b" "files ?w2 out = Some written"
    using assms by simp_all
  have "convert_block e t out msg w = analyze_block e t out msg ?w2"
    using C \<open>out \<noteq> []\<close> by (simp add: convert_block_def)
  with analyze_block_cleanup [OF f \<open>t \<noteq> out\<close>, of e msg] show ?thesis
    by simp
next
  case (ExitNonZero err left)
  let ?w1 = "st_error (''Error converting audio to WAV: '' @ err)
               (left_behind out left (log (SubprocessRun (ffmpeg_args t out)) w))"
  have C: "convert_to_wav e t out w = (Inr None, ?w1)"
    using ExitNonZero
    by (simp add: convert_to_wav_def subprocess_run_def Let_def ffmpeg_args_def)
  have "files ?w1 t = Some b"
    using assms by (simp split: option.splits)
  then have "remove_then t st_stop ?w1 =
               (Stopped, ?w1\<lparr>files := (files ?w1)(t := None), trace := trace ?w1 @ [FileRemoved t]\<rparr>)"
    by (rule remove_one_stop)
  moreover have "convert_block e t out msg w = remove_then t st_stop ?w1"
    using C by (simp add: convert_block_def)
  ultimately show ?thesis
    by (simp split: option.splits)
next
  case NoSuchExecutable
  then show ?thesis
    using assms
    by (simp add: convert_block_def convert_to_wav_def subprocess_run_def Let_def
          remove_one_stop)
next
  case NotExecutable
  then show ?thesis
    by (simp add: convert_block_def convert_to_wav_def subprocess_run_def Let_def)
next
  case (Undecodable status m left)
  then show ?thesis
    by (simp add: convert_block_def convert_to_wav_def subprocess_run_def Let_def
          split: option.splits)
qed

lemma record_audio_small:
  assumes "audio e = Some recorded" and "length recorded < 100"
  shows "record_audio e (init fs) =
           (Stopped,
            \<lparr>files = fs(tmp_stem e @ ''.wav'' := None),
             trace =
               [StWrite [''**Note**: Ensure your browser has microphone access. '' @
                         ''You may need to click '' @ CHR 0x27 # ''Allow'' @ CHR 0x27 # '' when prompted.''],
                FileCreated (tmp_stem e @ ''.wav''),
                StWrite [''Recorded audio file size: '' @ str_nat (length recorded) @ '' bytes''],
                StError (''Recorded audio file is empty. Please ensure your microphone '' @
                         ''is working and browser permissions are granted.''),
                FileRemoved (tmp_stem e @ ''.wav'')]\<rparr>)"
proof -
  let ?t = "tmp_stem e @ ''.wav''"
  let ?w0 = "st_write
                 [''**Note**: Ensure your browser has microphone access. '' @
                  ''You may need to click '' @ CHR 0x27 # ''Allow'' @ CHR 0x27 # '' when prompted.'']
                 (init fs)"
  let ?w1 = "log (FileCreated ?t) (?w0\<lparr>files := (files ?w0)(?t \<mapsto> recorded)\<rparr>)"
  let ?w2 = "st_write [''Recorded audio file size: '' @ str_nat (length recorded) @ '' bytes''] ?w1"
  let ?w3 = "st_error
               (''Recorded audio file is empty. Please ensure your microphone '' @
                ''is working and browser permissions are granted.'') ?w2"
  have "files ?w3 ?t = Some recorded" by simp
  then have S: "remove_then ?t st_stop ?w3 =
              (Stopped, ?w3\<lparr>files := (files ?w3)(?t := None), trace := trace ?w3 @ [FileRemoved ?t]\<rparr>)"
    by (rule remove_one_stop)
  have "record_audio e (init fs) = remove_then ?t st_stop ?w3"
    using assms
    by (simp add: record_audio_def named_temporary_file_def os_path_getsize_def Let_def)
  with S show ?thesis
    by (simp add: init_def st_write_def st_error_def log_def)
qed

lemma main_record:
  assumes "option_sel e = ''Record Audio''"
  shows "main e w =
           (case record_audio e w of
              (Finished, w1) \<Rightarrow> (Finished, st_write [disclaimer] w1)
            | (Stopped, w1) \<Rightarrow> (Stopped, w1)
            | (Raised ex, w1) \<Rightarrow> (Raised ex, w1))"
  using assms by (simp add: main_def)

lemma main_upload:
  assumes "option_sel e = ''Upload Audio''"
  shows "main e w =
           (case upload_audio e w of
              (Finished, w1) \<Rightarrow> (Finished, st_write [disclaimer] w1)
            | (Stopped, w1) \<Rightarrow> (Stopped, w1)
            | (Raised ex, w1) \<Rightarrow> (Raised ex, w1))"
  using assms by (simp add: main_def)

lemma record_audio_decoder_runs:
  "decoder_runs (trace (snd (record_audio e (init fs)))) =
     (case audio e of
        None \<Rightarrow> []
      | Some clip \<Rightarrow>
          if length clip < 100 then []
          else [ffmpeg_args (tmp_stem e @ ''.wav'') (tmp_stem e @ ''.wav'' @ ''_converted.wav'')])"
proof (cases "audio e")
  case None
  then show ?thesis by (simp add: record_audio_def finish_def)
next
  case (Some clip)
  let ?t = "tmp_stem e @ ''.wav''"
  let ?out = "?t @ ''_converted.wav''"
  let ?msg = "''Transcription is too short for analysis. '' @ ''Please record a longer audio clip.''"
  let ?w0 = "st_write
                 [''**Note**: Ensure your browser has microphone access. '' @
                  ''You may need to click '' @ CHR 0x27 # ''Allow'' @ CHR 0x27 # '' when prompted.'']
                 (init fs)"
  show ?thesis
  proof (cases "length clip < 100")
    case True
    with Some record_audio_small [of e clip fs] show ?thesis by simp
  next
    case False
    let ?w1 = "log (FileCreated ?t) (?w0\<lparr>files := (files ?w0)(?t \<mapsto> clip)\<rparr>)"
    let ?w2 = "st_write [''Recorded audio file size: '' @ str_nat (length clip) @ '' bytes''] ?w1"
    have U: "record_audio e (init fs) = convert_block e ?t ?out ?msg ?w2"
      using Some False
      by (simp add: record_audio_def named_temporary_file_def os_path_getsize_def Let_def)
    have f: "files ?w2 ?t = Some clip" by simp
    have ne: "?t \<noteq> ?out" "?out \<noteq> []" by simp_all
    from convert_block_decoder_runs [OF f ne, of e ?msg]
    have "decoder_runs (trace (snd (record_audio e (init fs)))) = [ffmpeg_args ?t ?out]"
      by (simp add: U)
    with Some False show ?thesis by simp
  qed
qed

lemma main_record_decoder_runs:
  assumes "option_sel e = ''Record Audio''"
  shows "decoder_runs (trace (snd (main e w))) = decoder_runs (trace (snd (record_audio e w)))"
  unfolding main_record [OF assms]
  by (cases "record_audio e w" rule: prod.exhaust) (auto split: outcome.splits)

text \<open>
  Claim C10. In the Record Audio mode the recorded bytes pass a size gate of their own
  before any conversion. A recording of fewer than 100 bytes stops the run with the
  empty-recording error, its temporary file is removed and the decoder is never run.
  Conversely, whenever the decoder is run in this mode, there is a recording, it has at
  least 100 bytes, and the decoder is run once, on the file that holds it.
\<close>

theorem record_size_gate:
  assumes "option_sel e = ''Record Audio''"
  shows "(audio e = Some recorded \<and> length recorded < 100 \<longrightarrow>
            fst (main e (init fs)) = Stopped \<and>
            decoder_runs (trace (snd (main e (init fs)))) = [] \<and>
            errors_shown (trace (snd (main e (init fs)))) =
              [''Recorded audio file is empty. Please ensure your microphone is working and browser permissions are granted.''] \<and>
            created (trace (snd (main e (init fs)))) = [tmp_stem e @ ''.wav''] \<and>
            removed (trace (snd (main e (init fs)))) = [tmp_stem e @ ''.wav''] \<and>
            files (snd (main e (init fs))) = fs(tmp_stem e @ ''.wav'' := None)) \<and>
         (decoder_runs (trace (snd (main e (init fs)))) \<noteq> [] \<longrightarrow>
            (\<exists>clip. audio e = Some clip \<and> 100 \<le> length clip \<and>
                   decoder_runs (trace (snd (main e (init fs)))) =
                     [ffmpeg_args (tmp_stem e @ ''.wav'') (tmp_stem e @ ''.wav'' @ ''_converted.wav'')]))"
proof -
  note D = main_record_decoder_runs [OF assms, of "init fs"]
  have "fst (main e (init fs)) = Stopped \<and>
        decoder_runs (trace (snd (main e (init fs)))) = [] \<and>
        errors_shown (trace (snd (main e (init fs)))) =
          [''Recorded audio file is empty. Please ensure your microphone is working and browser permissions are granted.''] \<and>
        created (trace (snd (main e (init fs)))) = [tmp_stem e @ ''.wav''] \<and>
        removed (trace (snd (main e (init fs)))) = [tmp_stem e @ ''.wav''] \<and>
        files (snd (main e (init fs))) = fs(tmp_stem e @ ''.wav'' := None)"
    if "audio e = Some recorded" and "length recorded < 100"
    unfolding main_record [OF assms] record_audio_small [OF that] by simp
  moreover have "\<exists>clip. audio e = Some clip \<and> 100 \<le> length clip \<and>
                   decoder_runs (trace (snd (main e (init fs)))) =
                     [ffmpeg_args (tmp_stem e @ ''.wav'') (tmp_stem e @ ''.wav'' @ ''_converted.wav'')]"
    if "decoder_runs (trace (snd (main e (init fs)))) \<noteq> []"
    using that unfolding D record_audio_decoder_runs
    by (auto split: option.splits if_splits)
  ultimately show ?thesis by blast
qed


theorem record_size_gate_witness:
  "option_sel (demo_env\<lparr>option_sel := ''Record Audio'', audio := Some (replicate 99 0)\<rparr>) = ''Record Audio'' \<and>
   audio (demo_env\<lparr>option_sel := ''Record Audio'', audio := Some (replicate 99 0)\<rparr>) = Some (replicate 99 0) \<and>
   length (replicate 99 (0 :: 8 word)) < 100 \<and>
   fst (main (demo_env\<lparr>option_sel := ''Record Audio'', audio := Some (replicate 99 0)\<rparr>) (init Map.empty)) = Stopped \<and>
   decoder_runs (trace (snd (main (demo_env\<lparr>option_sel := ''Record Audio'', audio := Some (replicate 99 0)\<rparr>)
                               (init Map.empty)))) = [] \<and>
   option_sel (demo_env\<lparr>option_sel := ''Record Audio''\<rparr>) = ''Record Audio'' \<and>
   decoder_runs (trace (snd (main (demo_env\<lparr>option_sel := ''Record Audio''\<rparr>) (init Map.empty)))) =
     [ffmpeg_args ''/tmp/tmpk3.wav'' ''/tmp/tmpk3.wav_converted.wav''] \<and>
   audio (demo_env\<lparr>option_sel := ''Record Audio''\<rparr>) = Some (replicate 100 0) \<and>
   100 \<le> length (replicate 100 (0 :: 8 word))"
proof -
  let ?e1 = "demo_env\<lparr>option_sel := ''Record Audio'', audio := Some (replicate 99 0)\<rparr>"
  let ?e2 = "demo_env\<lparr>option_sel := ''Record Audio''\<rparr>"
  have o1: "option_sel ?e1 = ''Record Audio''" by simp
  have a1: "audio ?e1 = Some (replicate 99 0)" by simp
  have l1: "length (replicate 99 (0 :: 8 word)) < 100" by simp
  have o2: "option_sel ?e2 = ''Record Audio''" by simp
  have a2: "audio ?e2 = Some (replicate 100 0)" by (simp add: demo_env_def)
  have t2: "tmp_stem ?e2 = ''/tmp/tmpk3''" by (simp add: demo_env_def)
  have r2: "decoder_runs (trace (snd (main ?e2 (init Map.empty)))) \<noteq> []"
    unfolding main_record_decoder_runs [OF o2] record_audio_decoder_runs a2 by simp
  from record_size_gate [OF o2, where fs = Map.empty] r2
  have "decoder_runs (trace (snd (main ?e2 (init Map.empty)))) =
          [ffmpeg_args ''/tmp/tmpk3.wav'' ''/tmp/tmpk3.wav_converted.wav'']"
    unfolding t2 by auto
  with record_size_gate [OF o1, where recorded = "replicate 99 0" and fs = Map.empty] o1 a1 l1 o2 a2
  show ?thesis by simp
qed

lemma analyze_block_too_short:
  assumes "analyze_clicked e"
    and "files w c = Some out" and "100 \<le> length out"
    and "load_model e ''medium'' = None"
    and "transcribe e (files w) c ''en'' = Inr t"
    and "\<not> list_all isspace t"
    and "length (str_split t) < 5"
    and "files w tp = Some b" and "tp \<noteq> c"
  shows "analyze_block e tp c msg w =
           (Stopped,
            w\<lparr>files := (files w)(tp := None, c := None),
              trace := trace w @
                [LoadModel ''medium'', Transcribe c ''en'', StWrite [''Transcription:'', t],
                 StError msg, FileRemoved tp, FileRemoved c]\<rparr>)"
proof -
  let ?w1 = "log (Transcribe c ''en'') (log (LoadModel ''medium'') w)"
  have T: "transcribe_audio e c w = ((Some t, None), ?w1)"
    using assms by (simp add: transcribe_audio_def os_path_getsize_def Let_def str_strip_empty_iff)
  let ?w2 = "st_error msg (st_write [''Transcription:'', t] ?w1)"
  have f: "files ?w2 tp = Some b" "files ?w2 c = Some out"
    using assms by simp_all
  have "analyze_block e tp c msg w = remove_then tp (remove_then c st_stop) ?w2"
    using assms T by (simp add: analyze_block_def truthy_def py_str_def)
  also have "\<dots> = (Stopped, ?w2\<lparr>files := (files ?w2)(tp := None, c := None),
                          trace := trace ?w2 @ [FileRemoved tp, FileRemoved c]\<rparr>)"
    using f \<open>tp \<noteq> c\<close> by (rule remove_both(1))
  finally show ?thesis by simp
qed

lemma convert_block_too_short:
  assumes "files w tp = Some b" and "tp \<noteq> c" and "c \<noteq> []"
    and "ffmpeg e (files w) (ffmpeg_args tp c) = Exit0 out"
    and "analyze_clicked e" and "100 \<le> length out"
    and "load_model e ''medium'' = None"
    and "transcribe e ((files w)(c \<mapsto> out)) c ''en'' = Inr t"
    and "\<not> list_all isspace t"
    and "length (str_split t) < 5"
  shows "convert_block e tp c msg w =
           (Stopped,
            w\<lparr>files := (files w)(tp := None, c := None),
              trace := trace w @
                [SubprocessRun (ffmpeg_args tp c), FileCreated c, StAudio c,
                 LoadModel ''medium'', Transcribe c ''en'', StWrite [''Transcription:'', t],
                 StError msg, FileRemoved tp, FileRemoved c]\<rparr>)"
proof -
  let ?w1 = "log (FileCreated c)
               ((log (SubprocessRun (ffmpeg_args tp c)) w)\<lparr>files := (files w)(c \<mapsto> out)\<rparr>)"
  let ?w2 = "log (StAudio c) ?w1"
  have C: "convert_to_wav e tp c w = (Inr (Some c), ?w1)"
    using assms
    by (simp add: convert_to_wav_def subprocess_run_def left_behind_def Let_def ffmpeg_args_def)
  have B: "convert_block e tp c msg w = analyze_block e tp c msg ?w2"
    using C \<open>c \<noteq> []\<close> by (simp add: convert_block_def)
  have "analyze_block e tp c msg ?w2 =
          (Stopped,
            ?w2\<lparr>files := (files ?w2)(tp := None, c := None),
              trace := trace ?w2 @
                [LoadModel ''medium'', Transcribe c ''en'', StWrite [''Transcription:'', t],
                 StError msg, FileRemoved tp, FileRemoved c]\<rparr>)"
    using assms by (intro analyze_block_too_short [where out = out and b = b]) simp_all
  then show ?thesis
    unfolding B by (simp add: log_def)
qed


text \<open>
  Claim C4. Take a run in which the Analyze button was pressed and the transcription
  succeeded, so that there is a transcript: the clip was decoded to a file of at least
  100 bytes, the model loaded, and its text \<open>t\<close> is not blank. If \<open>t\<close> has fewer than
  five whitespace-delimited words, the run stops at the length check with the
  too-short message of its mode as the only error shown, the classifier is never
  called, and both temporary files, created in this run, are removed. This holds in
  the Upload Audio mode and in the Record Audio mode.
\<close>

theorem too_short_transcript:
  assumes "(option_sel e = ''Upload Audio'' \<and> audio_file e = Some clip \<and>
            temp = tmp_stem e @ ''.tmp'' \<and> wav = temp @ ''.wav'' \<and>
            msg = ''Transcription is too short for analysis. Please upload a longer audio clip.'') \<or>
           (option_sel e = ''Record Audio'' \<and> audio e = Some clip \<and> 100 \<le> length clip \<and>
            temp = tmp_stem e @ ''.wav'' \<and> wav = temp @ ''_converted.wav'' \<and>
            msg = ''Transcription is too short for analysis. Please record a longer audio clip.'')"
    and "ffmpeg e (fs(temp \<mapsto> clip)) (ffmpeg_args temp wav) = Exit0 out"
    and "analyze_clicked e"
    and "100 \<le> length out"
    and "load_model e ''medium'' = None"
    and "transcribe e (fs(temp \<mapsto> clip, wav \<mapsto> out)) wav ''en'' = Inr t"
    and "\<not> list_all isspace t"
    and "length (str_split t) < 5"
  shows "fst (main e (init fs)) = Stopped \<and>
         errors_shown (trace (snd (main e (init fs)))) = [msg] \<and>
         classifier_calls (trace (snd (main e (init fs)))) = [] \<and>
         created (trace (snd (main e (init fs)))) = [temp, wav] \<and>
         removed (trace (snd (main e (init fs)))) = [temp, wav] \<and>
         files (snd (main e (init fs))) = fs(temp := None, wav := None)"
  using assms(1)
proof
  assume u: "option_sel e = ''Upload Audio'' \<and> audio_file e = Some clip \<and>
            temp = tmp_stem e @ ''.tmp'' \<and> wav = temp @ ''.wav'' \<and>
            msg = ''Transcription is too short for analysis. Please upload a longer audio clip.''"
  let ?w1 = "log (FileCreated temp) ((init fs)\<lparr>files := (files (init fs))(temp \<mapsto> clip)\<rparr>)"
  have U: "upload_audio e (init fs) = convert_block e temp wav msg ?w1"
    using u by (simp add: upload_audio_def named_temporary_file_def Let_def)
  have f: "files ?w1 temp = Some clip" by simp
  have ne: "temp \<noteq> wav" "wav \<noteq> []" using u by simp_all
  have "convert_block e temp wav msg ?w1 =
          (Stopped,
            ?w1\<lparr>files := (files ?w1)(temp := None, wav := None),
              trace := trace ?w1 @
                [SubprocessRun (ffmpeg_args temp wav), FileCreated wav, StAudio wav,
                 LoadModel ''medium'', Transcribe wav ''en'', StWrite [''Transcription:'', t],
                 StError msg, FileRemoved temp, FileRemoved wav]\<rparr>)"
    using f ne assms(2-8) by (intro convert_block_too_short [where out = out and b = clip]) simp_all
  then show ?thesis
    unfolding main_upload [OF conjunct1 [OF u]] U by simp
next
  assume r: "option_sel e = ''Record Audio'' \<and> audio e = Some clip \<and> 100 \<le> length clip \<and>
            temp = tmp_stem e @ ''.wav'' \<and> wav = temp @ ''_converted.wav'' \<and>
            msg = ''Transcription is too short for analysis. Please record a longer audio clip.''"
  let ?w0 = "st_write
                 [''**Note**: Ensure your browser has microphone access. '' @
                  ''You may need to click '' @ CHR 0x27 # ''Allow'' @ CHR 0x27 # '' when prompted.'']
                 (init fs)"
  let ?w1 = "log (FileCreated temp) (?w0\<lparr>files := (files ?w0)(temp \<mapsto> clip)\<rparr>)"
  let ?w2 = "st_write [''Recorded audio file size: '' @ str_nat (length clip) @ '' bytes''] ?w1"
  have U: "record_audio e (init fs) = convert_block e temp wav msg ?w2"
    using r by (simp add: record_audio_def named_temporary_file_def os_path_getsize_def Let_def)
  have f: "files ?w2 temp = Some clip" by simp
  have ne: "temp \<noteq> wav" "wav \<noteq> []" using r by simp_all
  have "convert_block e temp wav msg ?w2 =
          (Stopped,
            ?w2\<lparr>files := (files ?w2)(temp := None, wav := None),
              trace := trace ?w2 @
                [SubprocessRun (ffmpeg_args temp wav), FileCreated wav, StAudio wav,
                 LoadModel ''medium'', Transcribe wav ''en'', StWrite [''Transcription:'', t],
                 StError msg, FileRemoved temp, FileRemoved wav]\<rparr>)"
    using f ne assms(2-8) by (intro convert_block_too_short [where out = out and b = clip]) simp_all
  then show ?thesis
    unfolding main_record [OF conjunct1 [OF r]] U by simp
qed

theorem too_short_transcript_witness:
  "option_sel (demo_env\<lparr>transcribe := (\<lambda>fs p l. Inr ''Hello, who is this?'')\<rparr>) = ''Upload Audio'' \<and>
   audio_file (demo_env\<lparr>transcribe := (\<lambda>fs p l. Inr ''Hello, who is this?'')\<rparr>) = Some (replicate 4 0) \<and>
   ''/tmp/tmpk3.tmp'' = tmp_stem (demo_env\<lparr>transcribe := (\<lambda>fs p l. Inr ''Hello, who is this?'')\<rparr>) @ ''.tmp'' \<and>
   ffmpeg (demo_env\<lparr>transcribe := (\<lambda>fs p l. Inr ''Hello, who is this?'')\<rparr>)
     (Map.empty(''/tmp/tmpk3.tmp'' \<mapsto> replicate 4 0))
     (ffmpeg_args ''/tmp/tmpk3.tmp'' ''/tmp/tmpk3.tmp.wav'') = Exit0 (replicate 100 0) \<and>
   analyze_clicked (demo_env\<lparr>transcribe := (\<lambda>fs p l. Inr ''Hello, who is this?'')\<rparr>) \<and>
   100 \<le> length (replicate 100 (0 :: 8 word)) \<and>
   load_model (demo_env\<lparr>transcribe := (\<lambda>fs p l. Inr ''Hello, who is this?'')\<rparr>) ''medium'' = None \<and>
   transcribe (demo_env\<lparr>transcribe := (\<lambda>fs p l. Inr ''Hello, who is this?'')\<rparr>)
     (Map.empty(''/tmp/tmpk3.tmp'' \<mapsto> replicate 4 0, ''/tmp/tmpk3.tmp.wav'' \<mapsto> replicate 100 0))
     ''/tmp/tmpk3.tmp.wav'' ''en'' = Inr ''Hello, who is this?'' \<and>
   \<not> list_all isspace ''Hello, who is this?'' \<and>
   length (str_split ''Hello, who is this?'') < 5 \<and>
   fst (main (demo_env\<lparr>transcribe := (\<lambda>fs p l. Inr ''Hello, who is this?'')\<rparr>) (init Map.empty)) = Stopped \<and>
   errors_shown (trace (snd (main (demo_env\<lparr>transcribe := (\<lambda>fs p l. Inr ''Hello, who is this?'')\<rparr>)
                               (init Map.empty)))) =
     [''Transcription is too short for analysis. Please upload a longer audio clip.''] \<and>
   classifier_calls (trace (snd (main (demo_env\<lparr>transcribe := (\<lambda>fs p l. Inr ''Hello, who is this?'')\<rparr>)
                                   (init Map.empty)))) = [] \<and>
   removed (trace (snd (main (demo_env\<lparr>transcribe := (\<lambda>fs p l. Inr ''Hello, who is this?'')\<rparr>)
                          (init Map.empty)))) = [''/tmp/tmpk3.tmp'', ''/tmp/tmpk3.tmp.wav'']"
proof -
  let ?e = "demo_env\<lparr>transcribe := (\<lambda>fs p l. Inr ''Hello, who is this?'')\<rparr>"
  let ?msg = "''Transcription is too short for analysis. Please upload a longer audio clip.''"
  have o: "option_sel ?e = ''Upload Audio''" by (simp add: demo_env_def)
  have a: "audio_file ?e = Some (replicate 4 0)" by (simp add: demo_env_def)
  have n: "''/tmp/tmpk3.tmp'' = tmp_stem ?e @ ''.tmp''" by (simp add: demo_env_def)
  have v: "''/tmp/tmpk3.tmp.wav'' = ''/tmp/tmpk3.tmp'' @ ''.wav''" by simp
  have m: "?msg = ?msg" by simp
  have d: "ffmpeg ?e (Map.empty(''/tmp/tmpk3.tmp'' \<mapsto> replicate 4 0))
             (ffmpeg_args ''/tmp/tmpk3.tmp'' ''/tmp/tmpk3.tmp.wav'') = Exit0 (replicate 100 0)"
    by (simp add: demo_env_def)
  have k: "analyze_clicked ?e" by (simp add: demo_env_def)
  have l: "100 \<le> length (replicate 100 (0 :: 8 word))" by simp
  have lm: "load_model ?e ''medium'' = None" by (simp add: demo_env_def)
  have tr: "transcribe ?e
              (Map.empty(''/tmp/tmpk3.tmp'' \<mapsto> replicate 4 0, ''/tmp/tmpk3.tmp.wav'' \<mapsto> replicate 100 0))
              ''/tmp/tmpk3.tmp.wav'' ''en'' = Inr ''Hello, who is this?''"
    by simp
  have nb: "\<not> list_all isspace ''Hello, who is this?''" by (simp add: isspace_def)
  have sh: "length (str_split ''Hello, who is this?'') < 5" by (simp add: str_split_def isspace_def)
  have mode: "(option_sel ?e = ''Upload Audio'' \<and> audio_file ?e = Some (replicate 4 0) \<and>
            ''/tmp/tmpk3.tmp'' = tmp_stem ?e @ ''.tmp'' \<and> ''/tmp/tmpk3.tmp.wav'' = ''/tmp/tmpk3.tmp'' @ ''.wav'' \<and>
            ?msg = ''Transcription is too short for analysis. Please upload a longer audio clip.'') \<or>
           (option_sel ?e = ''Record Audio'' \<and> audio ?e = Some (replicate 4 0) \<and> 100 \<le> length (replicate 4 (0 :: 8 word)) \<and>
            ''/tmp/tmpk3.tmp'' = tmp_stem ?e @ ''.wav'' \<and> ''/tmp/tmpk3.tmp.wav'' = ''/tmp/tmpk3.tmp'' @ ''_converted.wav'' \<and>
            ?msg = ''Transcription is too short for analysis. Please record a longer audio clip.'')"
    using o a n v by blast
  from too_short_transcript [OF mode d k l lm tr nb sh] o a n d k l lm tr nb sh
  show ?thesis by blast
qed

end
